theory Spec2Isabelle
  imports Main
begin

section \<open>Slack MCP server: the Slack client and its tool registrations\<close>

text \<open>
  A shallow embedding of \<^verbatim>\<open>src/slack/index.ts\<close>: the class \<^verbatim>\<open>SlackClient\<close>
  (one method per Slack Web API call) and the class \<^verbatim>\<open>SlackMCP\<close> (constructor and
  \<^verbatim>\<open>init\<close>, which registers the tools).

  Conventions of the model.
  \<^item> A JavaScript string is a \<open>string\<close>: a character of the model is a code unit from
    \<open>U+0000\<close> to \<open>U+00FF\<close>, so the model covers the strings made of these.
    \<^verbatim>\<open>undefined\<close> is \<open>None\<close> of an option type.
  \<^item> A JavaScript number is an \<open>int\<close>: the model covers the integer-valued numbers of
    magnitude up to \<open>2^53\<close>, which \<^verbatim>\<open>Number.prototype.toString\<close> prints with
    their exact decimal digits, as \<open>number_toString\<close> does. Larger and fractional
    numbers are outside the model.
  \<^item> \<^verbatim>\<open>await fetch(..)\<close> followed by \<^verbatim>\<open>response.json()\<close> is one call of a function
    \<open>f\<close> on the state of the outside world: it answers with the decoded body
    (\<open>Inr\<close>) or with the error the promise rejects with (\<open>Inl\<close>), and returns the
    next state of the world. Every request sent is appended to a log.
  \<^item> An \<^verbatim>\<open>async\<close> method returns \<open>Inr v\<close> when its promise resolves with \<open>v\<close> and
    \<open>Inl e\<close> when it rejects with \<open>e\<close>.
\<close>

subsection \<open>JSON values\<close>

type_synonym number = int

datatype json =
    JNull
  | JBool bool
  | JNum number
  | JStr string
  | JArr "json list"
  | JObj "(string \<times> json) list"

datatype error =
    Rejected string
  | TypeError string
  | Error string
  | InvalidParams

text \<open>Decimal digits of a natural number, most significant first.\<close>

fun digits :: "nat \<Rightarrow> string" where
  "digits n =
     (if n < 10 then [''0123456789'' ! n]
      else digits (n div 10) @ [''0123456789'' ! (n mod 10)])"

declare digits.simps [simp del]

text \<open>\<^verbatim>\<open>n.toString()\<close> for an integer-valued number of magnitude up to \<open>2^53\<close>.\<close>

definition number_toString :: "number \<Rightarrow> string" where
  "number_toString n = (if n < 0 then ''-'' @ digits (nat (- n)) else digits (nat n))"

fun join :: "string \<Rightarrow> string list \<Rightarrow> string" where
  "join sep [] = []"
| "join sep [x] = x"
| "join sep (x # y # ys) = x @ sep @ join sep (y # ys)"

text \<open>
  \<^verbatim>\<open>JSON.stringify\<close>: a string is quoted, with the quotation mark, the backslash and
  the control characters below \<open>0x20\<close> escaped.
\<close>

definition escape_char :: "char \<Rightarrow> string" where
  "escape_char ch =
     (if ch = CHR 0x22 then [CHR 0x5C, CHR 0x22]
      else if ch = CHR 0x5C then [CHR 0x5C, CHR 0x5C]
      else if ch = CHR 0x08 then [CHR 0x5C, CHR ''b'']
      else if ch = CHR 0x0C then [CHR 0x5C, CHR ''f'']
      else if ch = CHR 0x0A then [CHR 0x5C, CHR ''n'']
      else if ch = CHR 0x0D then [CHR 0x5C, CHR ''r'']
      else if ch = CHR 0x09 then [CHR 0x5C, CHR ''t'']
      else if (of_char ch :: nat) < 32 then
        [CHR 0x5C, CHR ''u'', CHR ''0'', CHR ''0'',
         ''0123456789abcdef'' ! (of_char ch div 16),
         ''0123456789abcdef'' ! (of_char ch mod 16)]
      else [ch])"

definition quote :: "string \<Rightarrow> string" where
  "quote s = [CHR 0x22] @ concat (map escape_char s) @ [CHR 0x22]"

fun JSON_stringify :: "json \<Rightarrow> string" where
  "JSON_stringify JNull = ''null''"
| "JSON_stringify (JBool b) = (if b then ''true'' else ''false'')"
| "JSON_stringify (JNum n) = number_toString n"
| "JSON_stringify (JStr s) = quote s"
| "JSON_stringify (JArr xs) = ''['' @ join '','' (map JSON_stringify xs) @ '']''"
| "JSON_stringify (JObj kvs) =
     ''{'' @ join '','' (map (\<lambda>(k, v). quote k @ '':'' @ JSON_stringify v) kvs) @ ''}''"

text \<open>
  Truthiness of a JavaScript value read from a decoded body; \<open>None\<close> is \<^verbatim>\<open>undefined\<close>.
\<close>

fun truthy :: "json option \<Rightarrow> bool" where
  "truthy None = False"
| "truthy (Some JNull) = False"
| "truthy (Some (JBool b)) = b"
| "truthy (Some (JNum n)) = (n \<noteq> 0)"
| "truthy (Some (JStr s)) = (s \<noteq> [])"
| "truthy (Some (JArr xs)) = True"
| "truthy (Some (JObj kvs)) = True"

text \<open>Truthiness of an optional string: \<^verbatim>\<open>undefined\<close> and \<^verbatim>\<open>""\<close> are falsy.\<close>

fun truthy_string :: "string option \<Rightarrow> bool" where
  "truthy_string None = False"
| "truthy_string (Some s) = (s \<noteq> [])"

text \<open>
  Property access \<^verbatim>\<open>v.key\<close> for the keys the code reads (\<^verbatim>\<open>ok\<close>, \<^verbatim>\<open>channel\<close>,
  \<^verbatim>\<open>is_archived\<close>): on \<^verbatim>\<open>null\<close> it throws a TypeError, on an object it is the field
  or \<^verbatim>\<open>undefined\<close>, on a boolean, number, string or array it is \<^verbatim>\<open>undefined\<close>.
  A decoded object has each key once; \<open>JObj\<close> lists its fields in the order in which
  JavaScript enumerates them.
\<close>

fun get_prop :: "json \<Rightarrow> string \<Rightarrow> error + json option" where
  "get_prop JNull key = Inl (TypeError (''Cannot read properties of null (reading '' @ key @ '')''))"
| "get_prop (JObj kvs) key = Inr (map_of kvs key)"
| "get_prop v key = Inr None"

subsection \<open>Strings: split and trim\<close>

text \<open>\<^verbatim>\<open>s.split(",")\<close>: the pieces between the commas; the empty string gives one empty piece.\<close>

fun split_comma :: "string \<Rightarrow> string list" where
  "split_comma [] = [[]]"
| "split_comma (ch # cs) =
     (if ch = CHR '','' then [] # split_comma cs
      else (case split_comma cs of
              [] \<Rightarrow> [[ch]]
            | p # ps \<Rightarrow> (ch # p) # ps))"

text \<open>
  The white space and line terminators that \<^verbatim>\<open>String.prototype.trim\<close> removes, among
  the characters of the model: tab, line feed, vertical tab, form feed, carriage return,
  space and the no-break space \<open>U+00A0\<close>. (The others are above \<open>U+00FF\<close>:
  \<open>U+1680\<close>, \<open>U+2000\<close> to \<open>U+200A\<close>, \<open>U+2028\<close>, \<open>U+2029\<close>, \<open>U+202F\<close>,
  \<open>U+205F\<close>, \<open>U+3000\<close> and \<open>U+FEFF\<close>.)
\<close>

definition is_space :: "char \<Rightarrow> bool" where
  "is_space ch \<longleftrightarrow>
     ch \<in> {CHR 0x09, CHR 0x0A, CHR 0x0B, CHR 0x0C, CHR 0x0D, CHR 0x20, CHR 0xA0}"

definition trim :: "string \<Rightarrow> string" where
  "trim s = rev (dropWhile is_space (rev (dropWhile is_space s)))"

subsection \<open>Requests and the outside world\<close>

datatype http_method = GET | POST

text \<open>
  A request as \<^verbatim>\<open>fetch\<close> receives it. The source writes the URL of a query as
  \<^verbatim>\<open>`https://slack.com/api/...?${params}`\<close>; the model keeps the endpoint and the
  entries of the \<^verbatim>\<open>URLSearchParams\<close> apart. Without a \<^verbatim>\<open>method\<close> option the request
  is a GET without a body.
\<close>

record request =
  url :: string
  search :: "(string \<times> string) list"
  http_method :: http_method
  headers :: "(string \<times> string) list"
  body :: "string option"

type_synonym 'w fetch = "'w \<Rightarrow> request \<Rightarrow> (error + json) \<times> 'w"

record 'w net =
  sent :: "request list"
  world :: 'w

definition fetch_json :: "'w fetch \<Rightarrow> request \<Rightarrow> 'w net \<Rightarrow> (error + json) \<times> 'w net" where
  "fetch_json f r n =
     (case f (world n) r of
        (response, w') \<Rightarrow> (response, \<lparr>sent = sent n @ [r], world = w'\<rparr>))"

subsection \<open>SlackClient\<close>

record SlackClient =
  botHeaders :: "(string \<times> string) list"
  teamId :: string
  channelIds :: "string option"

definition SlackClient_constructor :: "string \<Rightarrow> string \<Rightarrow> string option \<Rightarrow> SlackClient" where
  "SlackClient_constructor botToken team ids =
     \<lparr>botHeaders = [(''Authorization'', ''Bearer '' @ botToken),
                    (''Content-Type'', ''application/json'')],
      teamId = team,
      channelIds = ids\<rparr>"

text \<open>A parameter with a default value takes it when the argument is \<^verbatim>\<open>undefined\<close>.\<close>

fun default_to :: "'a \<Rightarrow> 'a option \<Rightarrow> 'a" where
  "default_to d None = d"
| "default_to d (Some v) = v"

definition conversations_list_request ::
    "SlackClient \<Rightarrow> number option \<Rightarrow> string option \<Rightarrow> request" where
  "conversations_list_request c limit cursor =
     \<lparr>url = ''https://slack.com/api/conversations.list'',
      search =
        [(''types'', ''public_channel''),
         (''exclude_archived'', ''true''),
         (''limit'', number_toString (min (default_to 100 limit) 200)),
         (''team_id'', teamId c)]
        @ (case cursor of
             None \<Rightarrow> []
           | Some cur \<Rightarrow> if cur \<noteq> [] then [(''cursor'', cur)] else []),
      http_method = GET,
      headers = botHeaders c,
      body = None\<rparr>"

definition conversations_info_request :: "SlackClient \<Rightarrow> string \<Rightarrow> request" where
  "conversations_info_request c channelId =
     \<lparr>url = ''https://slack.com/api/conversations.info'',
      search = [(''channel'', channelId)],
      http_method = GET,
      headers = botHeaders c,
      body = None\<rparr>"

text \<open>
  The test \<^verbatim>\<open>data.ok && data.channel && !data.channel.is_archived\<close> of the loop, read
  left to right: \<open>Inr (Some ch)\<close> when the channel \<open>ch\<close> is pushed, \<open>Inr None\<close> when the
  lookup is skipped, \<open>Inl\<close> when reading \<^verbatim>\<open>data.ok\<close> throws.
\<close>

definition pushed_channel :: "json \<Rightarrow> error + json option" where
  "pushed_channel data =
     (case get_prop data ''ok'' of
        Inl e \<Rightarrow> Inl e
      | Inr ok \<Rightarrow>
          if \<not> truthy ok then Inr None
          else (case get_prop data ''channel'' of
                  Inl e \<Rightarrow> Inl e
                | Inr None \<Rightarrow> Inr None
                | Inr (Some ch) \<Rightarrow>
                    if \<not> truthy (Some ch) then Inr None
                    else (case get_prop ch ''is_archived'' of
                            Inl e \<Rightarrow> Inl e
                          | Inr archived \<Rightarrow>
                              if truthy archived then Inr None else Inr (Some ch))))"

text \<open>The loop over the pinned channel ids; \<open>channels\<close> is the array built so far.\<close>

fun getChannels_loop ::
    "'w fetch \<Rightarrow> SlackClient \<Rightarrow> string list \<Rightarrow> json list \<Rightarrow> 'w net
       \<Rightarrow> (error + json list) \<times> 'w net" where
  "getChannels_loop f c [] channels n = (Inr channels, n)"
| "getChannels_loop f c (channelId # rest) channels n =
     (case fetch_json f (conversations_info_request c channelId) n of
        (Inl e, n') \<Rightarrow> (Inl e, n')
      | (Inr responseData, n') \<Rightarrow>
          (case pushed_channel responseData of
             Inl e \<Rightarrow> (Inl e, n')
           | Inr None \<Rightarrow> getChannels_loop f c rest channels n'
           | Inr (Some ch) \<Rightarrow> getChannels_loop f c rest (channels @ [ch]) n'))"

definition getChannels ::
    "'w fetch \<Rightarrow> SlackClient \<Rightarrow> number option \<Rightarrow> string option \<Rightarrow> 'w net
       \<Rightarrow> (error + json) \<times> 'w net" where
  "getChannels f c limit cursor n =
     (if \<not> truthy_string (channelIds c) then
        fetch_json f (conversations_list_request c limit cursor) n
      else
        (case getChannels_loop f c
                (map trim (split_comma (default_to [] (channelIds c)))) [] n of
           (Inl e, n') \<Rightarrow> (Inl e, n')
         | (Inr channels, n') \<Rightarrow>
             (Inr (JObj [(''ok'', JBool True),
                         (''channels'', JArr channels),
                         (''response_metadata'', JObj [(''next_cursor'', JStr [])])]),
              n')))"

definition postMessage_request :: "SlackClient \<Rightarrow> string \<Rightarrow> string \<Rightarrow> request" where
  "postMessage_request c channel_id text =
     \<lparr>url = ''https://slack.com/api/chat.postMessage'',
      search = [],
      http_method = POST,
      headers = botHeaders c,
      body = Some (JSON_stringify
               (JObj [(''channel'', JStr channel_id), (''text'', JStr text)]))\<rparr>"

definition postMessage ::
    "'w fetch \<Rightarrow> SlackClient \<Rightarrow> string \<Rightarrow> string \<Rightarrow> 'w net \<Rightarrow> (error + json) \<times> 'w net" where
  "postMessage f c channel_id text n = fetch_json f (postMessage_request c channel_id text) n"

definition postReply_request :: "SlackClient \<Rightarrow> string \<Rightarrow> string \<Rightarrow> string \<Rightarrow> request" where
  "postReply_request c channel_id thread_ts text =
     \<lparr>url = ''https://slack.com/api/chat.postMessage'',
      search = [],
      http_method = POST,
      headers = botHeaders c,
      body = Some (JSON_stringify
               (JObj [(''channel'', JStr channel_id),
                      (''thread_ts'', JStr thread_ts),
                      (''text'', JStr text)]))\<rparr>"

definition postReply ::
    "'w fetch \<Rightarrow> SlackClient \<Rightarrow> string \<Rightarrow> string \<Rightarrow> string \<Rightarrow> 'w net
       \<Rightarrow> (error + json) \<times> 'w net" where
  "postReply f c channel_id thread_ts text n =
     fetch_json f (postReply_request c channel_id thread_ts text) n"

definition addReaction_request :: "SlackClient \<Rightarrow> string \<Rightarrow> string \<Rightarrow> string \<Rightarrow> request" where
  "addReaction_request c channel_id timestamp reaction =
     \<lparr>url = ''https://slack.com/api/reactions.add'',
      search = [],
      http_method = POST,
      headers = botHeaders c,
      body = Some (JSON_stringify
               (JObj [(''channel'', JStr channel_id),
                      (''timestamp'', JStr timestamp),
                      (''name'', JStr reaction)]))\<rparr>"

definition addReaction ::
    "'w fetch \<Rightarrow> SlackClient \<Rightarrow> string \<Rightarrow> string \<Rightarrow> string \<Rightarrow> 'w net
       \<Rightarrow> (error + json) \<times> 'w net" where
  "addReaction f c channel_id timestamp reaction n =
     fetch_json f (addReaction_request c channel_id timestamp reaction) n"

definition getChannelHistory_request :: "SlackClient \<Rightarrow> string \<Rightarrow> number option \<Rightarrow> request" where
  "getChannelHistory_request c channel_id limit =
     \<lparr>url = ''https://slack.com/api/conversations.history'',
      search = [(''channel'', channel_id),
                (''limit'', number_toString (default_to 10 limit))],
      http_method = GET,
      headers = botHeaders c,
      body = None\<rparr>"

definition getChannelHistory ::
    "'w fetch \<Rightarrow> SlackClient \<Rightarrow> string \<Rightarrow> number option \<Rightarrow> 'w net
       \<Rightarrow> (error + json) \<times> 'w net" where
  "getChannelHistory f c channel_id limit n =
     fetch_json f (getChannelHistory_request c channel_id limit) n"

definition getThreadReplies_request :: "SlackClient \<Rightarrow> string \<Rightarrow> string \<Rightarrow> request" where
  "getThreadReplies_request c channel_id thread_ts =
     \<lparr>url = ''https://slack.com/api/conversations.replies'',
      search = [(''channel'', channel_id), (''ts'', thread_ts)],
      http_method = GET,
      headers = botHeaders c,
      body = None\<rparr>"

definition getThreadReplies ::
    "'w fetch \<Rightarrow> SlackClient \<Rightarrow> string \<Rightarrow> string \<Rightarrow> 'w net \<Rightarrow> (error + json) \<times> 'w net" where
  "getThreadReplies f c channel_id thread_ts n =
     fetch_json f (getThreadReplies_request c channel_id thread_ts) n"

definition getUsers_request :: "SlackClient \<Rightarrow> number option \<Rightarrow> string option \<Rightarrow> request" where
  "getUsers_request c limit cursor =
     \<lparr>url = ''https://slack.com/api/users.list'',
      search =
        [(''limit'', number_toString (min (default_to 100 limit) 200)),
         (''team_id'', teamId c)]
        @ (case cursor of
             None \<Rightarrow> []
           | Some cur \<Rightarrow> if cur \<noteq> [] then [(''cursor'', cur)] else []),
      http_method = GET,
      headers = botHeaders c,
      body = None\<rparr>"

definition getUsers ::
    "'w fetch \<Rightarrow> SlackClient \<Rightarrow> number option \<Rightarrow> string option \<Rightarrow> 'w net
       \<Rightarrow> (error + json) \<times> 'w net" where
  "getUsers f c limit cursor n = fetch_json f (getUsers_request c limit cursor) n"

definition getUserProfile_request :: "SlackClient \<Rightarrow> string \<Rightarrow> request" where
  "getUserProfile_request c user_id =
     \<lparr>url = ''https://slack.com/api/users.profile.get'',
      search = [(''user'', user_id), (''include_labels'', ''true'')],
      http_method = GET,
      headers = botHeaders c,
      body = None\<rparr>"

definition getUserProfile ::
    "'w fetch \<Rightarrow> SlackClient \<Rightarrow> string \<Rightarrow> 'w net \<Rightarrow> (error + json) \<times> 'w net" where
  "getUserProfile f c user_id n = fetch_json f (getUserProfile_request c user_id) n"

subsection \<open>SlackMCP: the constructor and the registered tools\<close>

record Env =
  SLACK_BOT_TOKEN :: "string option"
  SLACK_TEAM_ID :: "string option"
  SLACK_CHANNEL_IDS :: "string option"

text \<open>A content item \<^verbatim>\<open>{type: "text", text: ..}\<close> of a tool result.\<close>

datatype content = TextContent string

text \<open>
  The arguments of a tool invocation, by parameter name. The server checks them against
  the schema of the tool before it calls the handler, so a handler only sees arguments
  that fit its schema; \<open>InvalidParams\<close> stands for an invocation that the server rejects.
\<close>

datatype arg = AStr string | ANum number

type_synonym args = "(string \<times> arg) list"

datatype ztype = ZString | ZNumber

record param =
  pname :: string
  ztype :: ztype
  optional :: bool
  description :: string

record 'w tool =
  tool_name :: string
  schema :: "param list"
  handler :: "'w fetch \<Rightarrow> args \<Rightarrow> 'w net \<Rightarrow> (error + content list) \<times> 'w net"

definition str_arg :: "args \<Rightarrow> string \<Rightarrow> string option" where
  "str_arg a key = (case map_of a key of Some (AStr s) \<Rightarrow> Some s | _ \<Rightarrow> None)"

definition num_arg :: "args \<Rightarrow> string \<Rightarrow> number option" where
  "num_arg a key = (case map_of a key of Some (ANum x) \<Rightarrow> Some x | _ \<Rightarrow> None)"

text \<open>\<^verbatim>\<open>return {content: [{type: "text", text: JSON.stringify(response)}]}\<close> after the await.\<close>

definition text_content :: "(error + json) \<times> 'w net \<Rightarrow> (error + content list) \<times> 'w net" where
  "text_content r =
     (case r of
        (Inl e, n) \<Rightarrow> (Inl e, n)
      | (Inr response, n) \<Rightarrow> (Inr [TextContent (JSON_stringify response)], n))"

definition thread_ts_description :: string where
  "thread_ts_description =
     ''The timestamp of the parent message in the format '' @ [CHR 0x27] @ ''1234567890.123456''
     @ [CHR 0x27] @ ''. Timestamps in the format without the period can be converted by ''
     @ ''adding the period such that 6 numbers come after it.''"

definition slack_list_channels :: "SlackClient \<Rightarrow> 'w tool" where
  "slack_list_channels c =
     \<lparr>tool_name = ''slack_list_channels'',
      schema =
        [\<lparr>pname = ''limit'', ztype = ZNumber, optional = True,
          description = ''Maximum number of channels to return (default 100, max 200)''\<rparr>,
         \<lparr>pname = ''cursor'', ztype = ZString, optional = True,
          description = ''Pagination cursor for next page of results''\<rparr>],
      handler = (\<lambda>f a n.
        text_content (getChannels f c (num_arg a ''limit'') (str_arg a ''cursor'') n))\<rparr>"

definition slack_post_message :: "SlackClient \<Rightarrow> 'w tool" where
  "slack_post_message c =
     \<lparr>tool_name = ''slack_post_message'',
      schema =
        [\<lparr>pname = ''channel_id'', ztype = ZString, optional = False,
          description = ''The ID of the channel to post to''\<rparr>,
         \<lparr>pname = ''text'', ztype = ZString, optional = False,
          description = ''The message text to post''\<rparr>],
      handler = (\<lambda>f a n.
        case (str_arg a ''channel_id'', str_arg a ''text'') of
          (Some channel_id, Some text) \<Rightarrow> text_content (postMessage f c channel_id text n)
        | _ \<Rightarrow> (Inl InvalidParams, n))\<rparr>"

definition slack_reply_to_thread :: "SlackClient \<Rightarrow> 'w tool" where
  "slack_reply_to_thread c =
     \<lparr>tool_name = ''slack_reply_to_thread'',
      schema =
        [\<lparr>pname = ''channel_id'', ztype = ZString, optional = False,
          description = ''The ID of the channel containing the thread''\<rparr>,
         \<lparr>pname = ''thread_ts'', ztype = ZString, optional = False,
          description = thread_ts_description\<rparr>,
         \<lparr>pname = ''text'', ztype = ZString, optional = False,
          description = ''The reply text''\<rparr>],
      handler = (\<lambda>f a n.
        case (str_arg a ''channel_id'', str_arg a ''thread_ts'', str_arg a ''text'') of
          (Some channel_id, Some thread_ts, Some text) \<Rightarrow>
            text_content (postReply f c channel_id thread_ts text n)
        | _ \<Rightarrow> (Inl InvalidParams, n))\<rparr>"

definition slack_add_reaction :: "SlackClient \<Rightarrow> 'w tool" where
  "slack_add_reaction c =
     \<lparr>tool_name = ''slack_add_reaction'',
      schema =
        [\<lparr>pname = ''channel_id'', ztype = ZString, optional = False,
          description = ''The ID of the channel containing the message''\<rparr>,
         \<lparr>pname = ''timestamp'', ztype = ZString, optional = False,
          description = ''The timestamp of the message to react to''\<rparr>,
         \<lparr>pname = ''reaction'', ztype = ZString, optional = False,
          description = ''The name of the emoji reaction (without ::)''\<rparr>],
      handler = (\<lambda>f a n.
        case (str_arg a ''channel_id'', str_arg a ''timestamp'', str_arg a ''reaction'') of
          (Some channel_id, Some timestamp, Some reaction) \<Rightarrow>
            text_content (addReaction f c channel_id timestamp reaction n)
        | _ \<Rightarrow> (Inl InvalidParams, n))\<rparr>"

definition slack_get_channel_history :: "SlackClient \<Rightarrow> 'w tool" where
  "slack_get_channel_history c =
     \<lparr>tool_name = ''slack_get_channel_history'',
      schema =
        [\<lparr>pname = ''channel_id'', ztype = ZString, optional = False,
          description = ''The ID of the channel''\<rparr>,
         \<lparr>pname = ''limit'', ztype = ZNumber, optional = True,
          description = ''Number of messages to retrieve (default 10)''\<rparr>],
      handler = (\<lambda>f a n.
        case str_arg a ''channel_id'' of
          Some channel_id \<Rightarrow>
            text_content (getChannelHistory f c channel_id (num_arg a ''limit'') n)
        | None \<Rightarrow> (Inl InvalidParams, n))\<rparr>"

definition slack_get_thread_replies :: "SlackClient \<Rightarrow> 'w tool" where
  "slack_get_thread_replies c =
     \<lparr>tool_name = ''slack_get_thread_replies'',
      schema =
        [\<lparr>pname = ''channel_id'', ztype = ZString, optional = False,
          description = ''The ID of the channel containing the thread''\<rparr>,
         \<lparr>pname = ''thread_ts'', ztype = ZString, optional = False,
          description = thread_ts_description\<rparr>],
      handler = (\<lambda>f a n.
        case (str_arg a ''channel_id'', str_arg a ''thread_ts'') of
          (Some channel_id, Some thread_ts) \<Rightarrow>
            text_content (getThreadReplies f c channel_id thread_ts n)
        | _ \<Rightarrow> (Inl InvalidParams, n))\<rparr>"

definition slack_get_users :: "SlackClient \<Rightarrow> 'w tool" where
  "slack_get_users c =
     \<lparr>tool_name = ''slack_get_users'',
      schema =
        [\<lparr>pname = ''cursor'', ztype = ZString, optional = True,
          description = ''Pagination cursor for next page of results''\<rparr>,
         \<lparr>pname = ''limit'', ztype = ZNumber, optional = True,
          description = ''Maximum number of users to return (default 100, max 200)''\<rparr>],
      handler = (\<lambda>f a n.
        text_content (getUsers f c (num_arg a ''limit'') (str_arg a ''cursor'') n))\<rparr>"

definition slack_get_user_profile :: "SlackClient \<Rightarrow> 'w tool" where
  "slack_get_user_profile c =
     \<lparr>tool_name = ''slack_get_user_profile'',
      schema =
        [\<lparr>pname = ''user_id'', ztype = ZString, optional = False,
          description = ''The ID of the user''\<rparr>],
      handler = (\<lambda>f a n.
        case str_arg a ''user_id'' of
          Some user_id \<Rightarrow> text_content (getUserProfile f c user_id n)
        | None \<Rightarrow> (Inl InvalidParams, n))\<rparr>"

record 'w SlackMCP =
  slackClient :: SlackClient
  server_tools :: "'w tool list"

text \<open>
  The constructor. \<^verbatim>\<open>!botToken || !teamId\<close> holds when either variable is
  \<^verbatim>\<open>undefined\<close> or the empty string. The \<^verbatim>\<open>McpServer\<close> of the agent is
  modelled by the list of the tools registered on it; it starts without tools.
\<close>

definition SlackMCP_constructor :: "Env \<Rightarrow> error + 'w SlackMCP" where
  "SlackMCP_constructor env =
     (if \<not> truthy_string (SLACK_BOT_TOKEN env) \<or> \<not> truthy_string (SLACK_TEAM_ID env) then
        Inl (Error ''SLACK_BOT_TOKEN and SLACK_TEAM_ID environment variables are required'')
      else
        Inr \<lparr>slackClient =
               SlackClient_constructor
                 (default_to [] (SLACK_BOT_TOKEN env))
                 (default_to [] (SLACK_TEAM_ID env))
                 (SLACK_CHANNEL_IDS env),
             server_tools = []\<rparr>)"

text \<open>\<^verbatim>\<open>this.server.tool(name, schema, handler)\<close> adds one tool to the server.\<close>

definition server_tool :: "'w tool \<Rightarrow> 'w SlackMCP \<Rightarrow> 'w SlackMCP" where
  "server_tool t m = m\<lparr>server_tools := server_tools m @ [t]\<rparr>"

definition init :: "'w SlackMCP \<Rightarrow> 'w SlackMCP" where
  "init m =
     fold server_tool
       [slack_list_channels (slackClient m),
        slack_post_message (slackClient m),
        slack_reply_to_thread (slackClient m),
        slack_add_reaction (slackClient m),
        slack_get_channel_history (slackClient m),
        slack_get_thread_replies (slackClient m),
        slack_get_users (slackClient m),
        slack_get_user_profile (slackClient m)]
       m"

subsection \<open>Notions used to state the properties\<close>

text \<open>The answers of the world to a sequence of requests sent one after the other.\<close>

fun exchange :: "'w fetch \<Rightarrow> request list \<Rightarrow> 'w \<Rightarrow> (error + json) list" where
  "exchange f [] w = []"
| "exchange f (r # rs) w = (case f w r of (response, w') \<Rightarrow> response # exchange f rs w')"

text \<open>The state of the world after a sequence of requests.\<close>

fun after :: "'w fetch \<Rightarrow> request list \<Rightarrow> 'w \<Rightarrow> 'w" where
  "after f [] w = w"
| "after f (r # rs) w = after f rs (snd (f w r))"

text \<open>A field of a decoded body; a body that is not an object has none.\<close>

fun field :: "json \<Rightarrow> string \<Rightarrow> json option" where
  "field (JObj kvs) key = map_of kvs key"
| "field v key = None"

text \<open>
  A lookup that succeeded with a channel that is not archived: \<^verbatim>\<open>ok\<close> is truthy, there
  is a truthy \<^verbatim>\<open>channel\<close>, and its \<^verbatim>\<open>is_archived\<close> is absent or falsy.
\<close>

definition ok_not_archived :: "json \<Rightarrow> bool" where
  "ok_not_archived b \<longleftrightarrow>
     truthy (field b ''ok'') \<and> truthy (field b ''channel'') \<and>
     (case field b ''channel'' of
        None \<Rightarrow> False
      | Some ch \<Rightarrow> \<not> truthy (field ch ''is_archived''))"

definition listed_channels :: "json list \<Rightarrow> json list" where
  "listed_channels bodies =
     List.map_filter (\<lambda>b. if ok_not_archived b then field b ''channel'' else None) bodies"

text \<open>The ids looked up for a configured string.\<close>

definition pinned_ids :: "string \<Rightarrow> string list" where
  "pinned_ids s = map trim (split_comma s)"

text \<open>An argument list fits a schema: the check the server makes before the handler.\<close>

fun has_type :: "arg \<Rightarrow> ztype \<Rightarrow> bool" where
  "has_type (AStr s) ZString = True"
| "has_type (ANum x) ZNumber = True"
| "has_type v t = False"

definition validates :: "param list \<Rightarrow> args \<Rightarrow> bool" where
  "validates ps a =
     list_all (\<lambda>p. case map_of a (pname p) of
                      None \<Rightarrow> optional p
                    | Some v \<Rightarrow> has_type v (ztype p)) ps"

subsection \<open>A sample workspace\<close>

text \<open>
  The world is the number of requests answered so far. The workspace \<open>slack\<close> knows the
  channel \<open>C1\<close> and the archived channel \<open>C2\<close>; \<open>offline\<close> rejects every request;
  \<open>flaky\<close> answers the first request and rejects the later ones.
\<close>

definition slack :: "nat fetch" where
  "slack w r =
     (if url r = ''https://slack.com/api/conversations.info'' then
        (if map_of (search r) ''channel'' = Some ''C1'' then
           Inr (JObj [(''ok'', JBool True),
                      (''channel'', JObj [(''id'', JStr ''C1''), (''is_archived'', JBool False)])])
         else if map_of (search r) ''channel'' = Some ''C2'' then
           Inr (JObj [(''ok'', JBool True),
                      (''channel'', JObj [(''id'', JStr ''C2''), (''is_archived'', JBool True)])])
         else Inr (JObj [(''ok'', JBool False), (''error'', JStr ''channel_not_found'')]))
      else Inr (JObj [(''ok'', JBool True)]),
      Suc w)"

definition offline :: "nat fetch" where
  "offline w r = (Inl (Rejected ''fetch failed''), Suc w)"

definition flaky :: "nat fetch" where
  "flaky w r = (if w = 0 then slack w r else offline w r)"

definition start :: "nat net" where
  "start = \<lparr>sent = [], world = 0\<rparr>"

definition open_client :: SlackClient where
  "open_client = SlackClient_constructor ''xoxb-1'' ''T1'' None"

definition pinned_client :: SlackClient where
  "pinned_client = SlackClient_constructor ''xoxb-1'' ''T1'' (Some ''C1,C2'')"

definition unknown_client :: SlackClient where
  "unknown_client = SlackClient_constructor ''xoxb-1'' ''T1'' (Some ''C9'')"

definition fresh_server :: "nat SlackMCP" where
  "fresh_server = \<lparr>slackClient = open_client, server_tools = []\<rparr>"

definition empty_token_env :: Env where
  "empty_token_env =
     \<lparr>SLACK_BOT_TOKEN = Some [], SLACK_TEAM_ID = Some ''T1'', SLACK_CHANNEL_IDS = None\<rparr>"

definition missing_token_env :: Env where
  "missing_token_env =
     \<lparr>SLACK_BOT_TOKEN = None, SLACK_TEAM_ID = Some ''T1'', SLACK_CHANNEL_IDS = None\<rparr>"

definition complete_env :: Env where
  "complete_env =
     \<lparr>SLACK_BOT_TOKEN = Some ''xoxb-1'', SLACK_TEAM_ID = Some ''T1'',
      SLACK_CHANNEL_IDS = Some ''C1,C2''\<rparr>"

section \<open>Properties\<close>

subsection \<open>One request, its answer passed on\<close>

lemma fetch_json_fst: "fst (fetch_json f r n) = fst (f (world n) r)"
  by (simp add: fetch_json_def split: prod.splits)

lemma fetch_json_sent: "sent (snd (fetch_json f r n)) = sent n @ [r]"
  by (simp add: fetch_json_def split: prod.splits)

lemma fetch_json_world: "world (snd (fetch_json f r n)) = snd (f (world n) r)"
  by (simp add: fetch_json_def split: prod.splits)

subsection \<open>The loop over the pinned channels\<close>

lemma pushed_channel_not_null:
  "b \<noteq> JNull \<Longrightarrow>
     pushed_channel b = Inr (if ok_not_archived b then field b ''channel'' else None)"
proof (cases b)
  case (JObj kvs)
  show ?thesis
  proof (cases "map_of kvs ''channel''")
    case None
    with JObj show ?thesis by (simp add: pushed_channel_def ok_not_archived_def)
  next
    case (Some ch)
    with JObj show ?thesis
      by (cases ch) (simp_all add: pushed_channel_def ok_not_archived_def)
  qed
qed (simp_all add: pushed_channel_def ok_not_archived_def)

lemma listed_channels_Cons:
  "listed_channels (b # bs) =
     (case (if ok_not_archived b then field b ''channel'' else None) of
        None \<Rightarrow> listed_channels bs | Some ch \<Rightarrow> ch # listed_channels bs)"
  by (simp add: listed_channels_def List.map_filter_simps split: option.splits)

lemma getChannels_loop_delivered:
  "exchange f (map (conversations_info_request c) ids) (world n) = map Inr bodies \<Longrightarrow>
   JNull \<notin> set bodies \<Longrightarrow>
   getChannels_loop f c ids acc n =
     (Inr (acc @ listed_channels bodies),
      \<lparr>sent = sent n @ map (conversations_info_request c) ids,
       world = after f (map (conversations_info_request c) ids) (world n)\<rparr>)"
proof (induction ids arbitrary: acc n bodies)
  case Nil
  then show ?case by (simp add: listed_channels_def List.map_filter_simps)
next
  case (Cons i ids)
  obtain out w' where fw: "f (world n) (conversations_info_request c i) = (out, w')"
    by (cases "f (world n) (conversations_info_request c i)")
  from Cons.prems(1) fw obtain b bs where bodies: "bodies = b # bs" and out: "out = Inr b"
    and rest: "exchange f (map (conversations_info_request c) ids) w' = map Inr bs"
    by (cases bodies) auto
  from Cons.prems(2) bodies have nn: "b \<noteq> JNull" and nns: "JNull \<notin> set bs" by auto
  let ?n' = "\<lparr>sent = sent n @ [conversations_info_request c i], world = w'\<rparr>"
  have step: "fetch_json f (conversations_info_request c i) n = (Inr b, ?n')"
    by (simp add: fetch_json_def fw out)
  have IH: "\<And>acc. getChannels_loop f c ids acc ?n' =
     (Inr (acc @ listed_channels bs),
      \<lparr>sent = sent ?n' @ map (conversations_info_request c) ids,
       world = after f (map (conversations_info_request c) ids) (world ?n')\<rparr>)"
    using Cons.IH [of ?n' bs] rest nns by simp
  show ?case
    by (simp add: step pushed_channel_not_null [OF nn] IH bodies listed_channels_Cons fw
          split: option.splits)
qed

lemma getChannels_loop_failure:
  "Inl e \<in> set (exchange f (map (conversations_info_request c) ids) (world n)) \<Longrightarrow>
   isl (fst (getChannels_loop f c ids acc n))"
proof (induction ids arbitrary: acc n)
  case Nil
  then show ?case by simp
next
  case (Cons i ids)
  obtain out w' where fw: "f (world n) (conversations_info_request c i) = (out, w')"
    by (cases "f (world n) (conversations_info_request c i)")
  let ?n' = "\<lparr>sent = sent n @ [conversations_info_request c i], world = w'\<rparr>"
  have step: "fetch_json f (conversations_info_request c i) n = (out, ?n')"
    by (simp add: fetch_json_def fw)
  show ?case
  proof (cases out)
    case (Inl e')
    then show ?thesis by (simp add: step)
  next
    case (Inr b)
    with Cons.prems fw have "Inl e \<in> set (exchange f (map (conversations_info_request c) ids) (world ?n'))"
      by auto
    from Cons.IH [OF this] show ?thesis
      by (simp add: step Inr split: sum.splits option.splits)
  qed
qed

lemma getChannels_loop_rejected:
  "exchange f (map (conversations_info_request c) ids) (world n) = map Inr bodies @ Inl e # rest \<Longrightarrow>
   JNull \<notin> set bodies \<Longrightarrow>
   getChannels_loop f c ids acc n =
     (Inl e,
      \<lparr>sent = sent n @ map (conversations_info_request c) (take (Suc (length bodies)) ids),
       world = after f (map (conversations_info_request c) (take (Suc (length bodies)) ids))
                 (world n)\<rparr>)"
proof (induction ids arbitrary: acc n bodies)
  case Nil
  then show ?case by simp
next
  case (Cons i ids)
  obtain out w' where fw: "f (world n) (conversations_info_request c i) = (out, w')"
    by (cases "f (world n) (conversations_info_request c i)")
  let ?n' = "\<lparr>sent = sent n @ [conversations_info_request c i], world = w'\<rparr>"
  have step: "fetch_json f (conversations_info_request c i) n = (out, ?n')"
    by (simp add: fetch_json_def fw)
  show ?case
  proof (cases bodies)
    case Nil
    with Cons.prems(1) fw have "out = Inl e" by simp
    with Nil show ?thesis by (simp add: step fw)
  next
    case (Cons b bs)
    with Cons.prems(1) fw have out: "out = Inr b"
      and rest: "exchange f (map (conversations_info_request c) ids) (world ?n')
                   = map Inr bs @ Inl e # rest"
      by simp_all
    from Cons.prems(2) Cons have nn: "b \<noteq> JNull" and nns: "JNull \<notin> set bs" by auto
    have IH: "\<And>acc. getChannels_loop f c ids acc ?n' =
       (Inl e,
        \<lparr>sent = sent ?n' @ map (conversations_info_request c) (take (Suc (length bs)) ids),
         world = after f (map (conversations_info_request c) (take (Suc (length bs)) ids))
                   (world ?n')\<rparr>)"
      using Cons.IH [OF rest nns] by simp
    show ?thesis
      by (simp add: step out pushed_channel_not_null [OF nn] IH Cons fw split: option.splits)
  qed
qed

lemma getChannels_open:
  "\<not> truthy_string (channelIds c) \<Longrightarrow>
     getChannels f c limit cursor n = fetch_json f (conversations_list_request c limit cursor) n"
  by (simp add: getChannels_def)

subsection \<open>Splitting and trimming the configured string\<close>

lemma split_comma_nonempty: "split_comma s \<noteq> []"
  by (induction s) (auto split: list.splits)

lemma split_comma_append_comma:
  "split_comma (a @ CHR '','' # b) = split_comma a @ split_comma b"
  using split_comma_nonempty by (induction a) (auto split: list.splits)

lemma split_comma_prefix:
  "CHR '','' \<notin> set l \<Longrightarrow>
     split_comma (l @ s) = (l @ hd (split_comma s)) # tl (split_comma s)"
  using split_comma_nonempty [of s] by (induction l) (auto split: list.splits)

lemma split_comma_no_comma: "CHR '','' \<notin> set r \<Longrightarrow> split_comma r = [r]"
  by (induction r) auto

lemma split_comma_suffix:
  "CHR '','' \<notin> set r \<Longrightarrow>
     split_comma (s @ r) = butlast (split_comma s) @ [last (split_comma s) @ r]"
proof (induction s)
  case Nil
  then show ?case by (simp add: split_comma_no_comma)
next
  case (Cons ch s)
  then show ?case
    using split_comma_nonempty [of s] split_comma_nonempty [of "s @ r"]
    by (cases "split_comma s") (auto split: list.splits)
qed

lemma space_not_comma: "is_space ch \<Longrightarrow> ch \<noteq> CHR '',''"
  by (auto simp: is_space_def)

lemma trim_prefix: "list_all is_space l \<Longrightarrow> trim (l @ s) = trim s"
  by (induction l) (simp_all add: trim_def)

lemma dropWhile_all: "list_all P xs \<Longrightarrow> dropWhile P (xs @ ys) = dropWhile P ys"
  by (induction xs) simp_all

lemma trim_suffix:
  assumes r: "list_all is_space r"
  shows "trim (s @ r) = trim s"
proof (cases "list_all is_space s")
  case True
  with r have "\<forall>ch \<in> set (s @ r). is_space ch" by (auto simp: list_all_iff)
  then have "dropWhile is_space (s @ r) = []" by (simp only: dropWhile_eq_Nil_conv)
  moreover from True have "dropWhile is_space s = []"
    by (simp add: dropWhile_eq_Nil_conv list_all_iff)
  ultimately show ?thesis by (simp only: trim_def)
next
  case False
  then have "dropWhile is_space (s @ r) = dropWhile is_space s @ r"
    by (auto simp: dropWhile_append list_all_iff)
  moreover from r have "list_all is_space (rev r)" by (simp add: list_all_iff)
  ultimately show ?thesis by (simp add: trim_def dropWhile_all)
qed

lemma pinned_ids_padded:
  assumes l: "list_all is_space l" and r: "list_all is_space r"
  shows "pinned_ids (l @ i @ r) = pinned_ids i"
proof -
  let ?Y = "split_comma i" and ?X = "split_comma (i @ r)"
  from l have lc: "CHR '','' \<notin> set l" by (auto simp: list_all_iff dest: space_not_comma)
  from r have rc: "CHR '','' \<notin> set r" by (auto simp: list_all_iff dest: space_not_comma)
  have X: "?X = butlast ?Y @ [last ?Y @ r]" by (rule split_comma_suffix [OF rc])
  have "map trim (split_comma (l @ i @ r)) = map trim ((l @ hd ?X) # tl ?X)"
    by (simp add: split_comma_prefix [OF lc])
  also have "\<dots> = map trim (hd ?X # tl ?X)" by (simp add: trim_prefix [OF l])
  also have "\<dots> = map trim ?X" using split_comma_nonempty [of "i @ r"] by simp
  also have "\<dots> = map trim (butlast ?Y @ [last ?Y])" by (simp add: X trim_suffix [OF r])
  also have "\<dots> = map trim ?Y" using split_comma_nonempty [of i] by simp
  finally show ?thesis by (simp add: pinned_ids_def)
qed

lemma pinned_ids_join:
  "ss \<noteq> [] \<Longrightarrow> pinned_ids (join '','' ss) = concat (map pinned_ids ss)"
proof (induction "'',''" ss rule: join.induct)
  case (3 x y ys)
  then show ?case by (simp add: pinned_ids_def split_comma_append_comma)
qed simp_all

lemma pinned_ids_spaces_around_commas:
  assumes "\<forall>(l, i, r) \<in> set xs. list_all is_space l \<and> list_all is_space r"
  shows "pinned_ids (join '','' (map (\<lambda>(l, i, r). l @ i @ r) xs))
       = pinned_ids (join '','' (map (\<lambda>(l, i, r). i) xs))"
proof (cases "xs = []")
  case True
  then show ?thesis by simp
next
  case False
  have "concat (map pinned_ids (map (\<lambda>(l, i, r). l @ i @ r) xs))
      = concat (map pinned_ids (map (\<lambda>(l, i, r). i) xs))"
    using assms by (induction xs) (auto simp: pinned_ids_padded)
  with False show ?thesis by (simp add: pinned_ids_join)
qed

lemma join_padded_nonempty:
  "join sep (map (\<lambda>(l, i, r). i) xs) \<noteq> [] \<Longrightarrow> join sep (map (\<lambda>(l, i, r). l @ i @ r) xs) \<noteq> []"
proof -
  have "length (join sep (map (\<lambda>(l, i, r). i) xs)) \<le> length (join sep (map (\<lambda>(l, i, r). l @ i @ r) xs))"
  proof (induction xs rule: induct_list012)
    case (3 x y zs)
    then show ?case by (auto split: prod.splits)
  qed (auto split: prod.splits)
  then show "join sep (map (\<lambda>(l, i, r). i) xs) \<noteq> [] \<Longrightarrow> join sep (map (\<lambda>(l, i, r). l @ i @ r) xs) \<noteq> []"
    by auto
qed

lemma trim_id: "s = [] \<or> \<not> is_space (hd s) \<and> \<not> is_space (last s) \<Longrightarrow> trim s = s"
proof (cases s rule: rev_cases)
  case Nil
  then show ?thesis by (simp add: trim_def)
next
  case (snoc ys y)
  assume "s = [] \<or> \<not> is_space (hd s) \<and> \<not> is_space (last s)"
  with snoc have h: "\<not> is_space (hd (ys @ [y]))" and l: "\<not> is_space y" by auto
  from h have d: "dropWhile is_space (ys @ [y]) = ys @ [y]" by (cases ys) simp_all
  from l have "dropWhile is_space (rev (ys @ [y])) = rev (ys @ [y])" by simp
  with d snoc show ?thesis by (simp add: trim_def)
qed

lemma pinned_ids_element:
  assumes "list_all is_space l" and "list_all is_space r" and "CHR '','' \<notin> set i"
    and "i = [] \<or> \<not> is_space (hd i) \<and> \<not> is_space (last i)"
  shows "pinned_ids (l @ i @ r) = [i]"
  using pinned_ids_padded [OF assms(1,2), of i] assms(3,4)
  by (simp add: pinned_ids_def split_comma_no_comma trim_id)

lemma pinned_ids_elements:
  assumes "\<forall>(l, i, r) \<in> set xs. list_all is_space l \<and> list_all is_space r"
    and "\<forall>(l, i, r) \<in> set xs.
           CHR '','' \<notin> set i \<and> (i = [] \<or> \<not> is_space (hd i) \<and> \<not> is_space (last i))"
    and "xs \<noteq> []"
  shows "pinned_ids (join '','' (map (\<lambda>(l, i, r). l @ i @ r) xs)) = map (\<lambda>(l, i, r). i) xs"
proof -
  have e: "pinned_ids ((\<lambda>(l, i, r). l @ i @ r) x) = [(\<lambda>(l, i, r). i) x]" if "x \<in> set xs" for x
  proof -
    obtain l i r where x: "x = (l, i, r)" by (cases x)
    from assms(1) that x have p: "list_all is_space l" "list_all is_space r" by auto
    from assms(2) that x have q: "CHR '','' \<notin> set i"
      "i = [] \<or> \<not> is_space (hd i) \<and> \<not> is_space (last i)" by auto
    from pinned_ids_element [OF p q] show ?thesis by (simp only: x prod.case)
  qed
  have "concat (map pinned_ids (map (\<lambda>(l, i, r). l @ i @ r) ys)) = map (\<lambda>(l, i, r). i) ys"
    if "set ys \<subseteq> set xs" for ys
    using that
  proof (induction ys)
    case Nil
    then show ?case by simp
  next
    case (Cons y ys)
    then have "y \<in> set xs" and "set ys \<subseteq> set xs" by auto
    with Cons.IH e [of y] show ?case by simp
  qed
  then have "concat (map pinned_ids (map (\<lambda>(l, i, r). l @ i @ r) xs)) = map (\<lambda>(l, i, r). i) xs"
    by simp
  with assms(3) show ?thesis by (simp add: pinned_ids_join)
qed

lemma getChannels_loop_sent_prefix:
  "\<exists>k \<le> length ids. sent (snd (getChannels_loop f c ids acc n))
      = sent n @ map (conversations_info_request c) (take k ids)"
proof (induction ids arbitrary: acc n)
  case Nil
  then show ?case by simp
next
  case (Cons i ids)
  obtain out w' where fw: "f (world n) (conversations_info_request c i) = (out, w')"
    by (cases "f (world n) (conversations_info_request c i)")
  let ?n' = "\<lparr>sent = sent n @ [conversations_info_request c i], world = w'\<rparr>"
  have step: "fetch_json f (conversations_info_request c i) n = (out, ?n')"
    by (simp add: fetch_json_def fw)
  have stop: "\<exists>k \<le> length (i # ids). sent ?n' = sent n @ map (conversations_info_request c) (take k (i # ids))"
    by (rule exI [of _ 1]) simp
  have go: "\<exists>k \<le> length (i # ids). sent (snd (getChannels_loop f c ids acc' ?n'))
      = sent n @ map (conversations_info_request c) (take k (i # ids))" for acc'
  proof -
    from Cons.IH [of acc' ?n'] obtain k where "k \<le> length ids"
      "sent (snd (getChannels_loop f c ids acc' ?n')) = sent ?n' @ map (conversations_info_request c) (take k ids)"
      by blast
    then show ?thesis by (intro exI [of _ "Suc k"]) simp
  qed
  show ?case
  proof (cases out)
    case (Inl e)
    with stop show ?thesis by (simp add: step)
  next
    case (Inr b)
    show ?thesis
    proof (cases "pushed_channel b")
      case (Inl e)
      with stop Inr show ?thesis by (simp add: step)
    next
      case pc: (Inr pushed)
      with go Inr show ?thesis by (cases pushed) (simp_all add: step)
    qed
  qed
qed

lemma digits_nonempty: "digits n \<noteq> []"
  by (subst digits.simps) simp

lemma digit_char_inj: "a < 10 \<Longrightarrow> b < 10 \<Longrightarrow> ''0123456789'' ! a = ''0123456789'' ! b \<Longrightarrow> a = b"
  by (subst (asm) nth_eq_iff_index_eq) simp_all

lemma digits_inj: "digits n = digits m \<Longrightarrow> n = m"
proof (induction n arbitrary: m rule: digits.induct)
  case (1 n)
  show ?case
  proof (cases "n < 10")
    case n: True
    show ?thesis
    proof (cases "m < 10")
      case True
      with n "1.prems" show ?thesis
        by (subst (asm) digits.simps, subst (asm) (2) digits.simps) (simp add: digit_char_inj)
    next
      case False
      with n "1.prems" digits_nonempty [of "m div 10"] show ?thesis
        by (subst (asm) digits.simps, subst (asm) (2) digits.simps) simp
    qed
  next
    case n: False
    show ?thesis
    proof (cases "m < 10")
      case True
      with n "1.prems" digits_nonempty [of "n div 10"] show ?thesis
        by (subst (asm) digits.simps, subst (asm) (2) digits.simps) simp
    next
      case False
      with n "1.prems" have eq: "digits (n div 10) = digits (m div 10)"
        and d: "''0123456789'' ! (n mod 10) = ''0123456789'' ! (m mod 10)"
        by (subst (asm) digits.simps, subst (asm) (2) digits.simps, simp)+
      from "1.IH" [OF n eq] have "n div 10 = m div 10" .
      moreover from d have "n mod 10 = m mod 10" by (intro digit_char_inj) simp_all
      ultimately show ?thesis by (metis div_mult_mod_eq)
    qed
  qed
qed

lemma digits_no_minus: "CHR ''-'' \<notin> set (digits n)"
proof (induction n rule: digits.induct)
  case (1 n)
  have d: "''0123456789'' ! k \<noteq> CHR ''-''" if "k < 10" for k
  proof -
    from that have "''0123456789'' ! k \<in> set ''0123456789''" by (intro nth_mem) simp
    then show ?thesis by auto
  qed
  show ?case
  proof (cases "n < 10")
    case True
    then show ?thesis by (subst digits.simps) (simp add: d [THEN not_sym])
  next
    case False
    with "1.IH" show ?thesis by (subst digits.simps) (simp add: d [THEN not_sym])
  qed
qed

lemma number_toString_inj: "number_toString x = number_toString y \<Longrightarrow> x = y"
proof -
  assume eq: "number_toString x = number_toString y"
  have neg: "CHR ''-'' \<in> set (number_toString z) \<longleftrightarrow> z < 0" for z
    by (simp add: number_toString_def digits_no_minus)
  from eq neg [of x] neg [of y] have s: "x < 0 \<longleftrightarrow> y < 0" by simp
  show "x = y"
  proof (cases "x < 0")
    case True
    with s eq have "digits (nat (- x)) = digits (nat (- y))" by (simp add: number_toString_def)
    from digits_inj [OF this] True s show ?thesis by simp
  next
    case False
    with s eq have "digits (nat x) = digits (nat y)" by (simp add: number_toString_def)
    from digits_inj [OF this] False s show ?thesis by simp
  qed
qed

subsection \<open>Requests sent in pinned mode\<close>

lemma getChannels_loop_sends_first:
  "\<exists>k. 0 < k \<and> k \<le> length (i # ids) \<and>
     sent (snd (getChannels_loop f c (i # ids) acc n))
       = sent n @ map (conversations_info_request c) (take k (i # ids))"
proof -
  obtain out w' where fw: "f (world n) (conversations_info_request c i) = (out, w')"
    by (cases "f (world n) (conversations_info_request c i)")
  let ?n' = "\<lparr>sent = sent n @ [conversations_info_request c i], world = w'\<rparr>"
  have step: "fetch_json f (conversations_info_request c i) n = (out, ?n')"
    by (simp add: fetch_json_def fw)
  have stop: "\<exists>k. 0 < k \<and> k \<le> length (i # ids) \<and>
      sent ?n' = sent n @ map (conversations_info_request c) (take k (i # ids))"
    by (rule exI [of _ 1]) simp
  have go: "\<exists>k. 0 < k \<and> k \<le> length (i # ids) \<and>
      sent (snd (getChannels_loop f c ids acc' ?n'))
        = sent n @ map (conversations_info_request c) (take k (i # ids))" for acc'
  proof -
    from getChannels_loop_sent_prefix [of ids f c acc' ?n'] obtain k where "k \<le> length ids"
      "sent (snd (getChannels_loop f c ids acc' ?n'))
         = sent ?n' @ map (conversations_info_request c) (take k ids)"
      by blast
    then show ?thesis by (intro exI [of _ "Suc k"]) simp
  qed
  show ?thesis
  proof (cases out)
    case (Inl e)
    with stop show ?thesis by (simp add: step)
  next
    case (Inr b)
    show ?thesis
    proof (cases "pushed_channel b")
      case (Inl e)
      with stop Inr show ?thesis by (simp add: step)
    next
      case pc: (Inr pushed)
      with go Inr show ?thesis by (cases pushed) (simp_all add: step)
    qed
  qed
qed

lemma getChannels_pinned_sent:
  assumes "channelIds c = Some s" and "s \<noteq> []"
  shows "\<exists>k. 0 < k \<and> k \<le> length (split_comma s) \<and>
     sent (snd (getChannels f c limit cursor n))
       = sent n @ map (conversations_info_request c) (take k (map trim (split_comma s)))"
proof -
  obtain p ps where sp: "split_comma s = p # ps"
    using split_comma_nonempty [of s] by (cases "split_comma s") auto
  from getChannels_loop_sends_first [of "trim p" "map trim ps" f c "[]" n]
  obtain k where k: "0 < k" "k \<le> length (trim p # map trim ps)"
    "sent (snd (getChannels_loop f c (trim p # map trim ps) [] n))
       = sent n @ map (conversations_info_request c) (take k (trim p # map trim ps))"
    by blast
  have "sent (snd (getChannels f c limit cursor n))
       = sent (snd (getChannels_loop f c (trim p # map trim ps) [] n))"
    using assms sp by (simp add: getChannels_def split: prod.splits sum.splits)
  with k sp show ?thesis by (intro exI [of _ k]) simp
qed

lemma getChannels_pinned_delivered_sent:
  assumes "channelIds c = Some s" and "s \<noteq> []"
    and "exchange f (map (conversations_info_request c) (map trim (split_comma s))) (world n)
           = map Inr bodies"
    and "JNull \<notin> set bodies"
  shows "sent (snd (getChannels f c limit cursor n))
           = sent n @ map (conversations_info_request c) (map trim (split_comma s))"
  using getChannels_loop_delivered [OF assms(3,4), of "[]"] assms(1,2)
  by (simp add: getChannels_def)

lemma getChannels_pinned_ids:
  "channelIds c = Some s \<Longrightarrow> s \<noteq> [] \<Longrightarrow> channelIds c' = Some s' \<Longrightarrow> s' \<noteq> [] \<Longrightarrow>
   botHeaders c = botHeaders c' \<Longrightarrow> pinned_ids s = pinned_ids s' \<Longrightarrow>
   getChannels f c limit cursor n = getChannels f c' limit' cursor' n"
proof -
  assume a: "channelIds c = Some s" "s \<noteq> []" "channelIds c' = Some s'" "s' \<noteq> []"
    and h: "botHeaders c = botHeaders c'" and p: "pinned_ids s = pinned_ids s'"
  from h have req: "conversations_info_request c = conversations_info_request c'"
    by (simp add: conversations_info_request_def fun_eq_iff)
  have "getChannels_loop f c ids acc m = getChannels_loop f c' ids acc m" for ids acc m
    by (induction ids arbitrary: acc m)
       (simp_all add: req split: prod.splits sum.splits option.splits)
  with a p show ?thesis by (simp add: getChannels_def pinned_ids_def)
qed

subsection \<open>The handlers of the registered tools\<close>

lemma validates_required_string:
  assumes "validates ps a" and "p \<in> set ps" and "ztype p = ZString" and "\<not> optional p"
  shows "\<exists>s. str_arg a (pname p) = Some s"
proof -
  from assms(1,2) have
    "case map_of a (pname p) of None \<Rightarrow> optional p | Some v \<Rightarrow> has_type v (ztype p)"
    by (simp add: validates_def list_all_iff)
  with assms(3,4) obtain v where v: "map_of a (pname p) = Some v" "has_type v ZString"
    by (cases "map_of a (pname p)") auto
  then show ?thesis by (cases v) (simp_all add: str_arg_def)
qed

lemma text_content_fetch_json:
  "sent (snd (text_content (fetch_json f r n))) = sent n @ [r]
   \<and> fst (text_content (fetch_json f r n))
       = (case fst (f (world n) r) of
            Inl e \<Rightarrow> Inl e
          | Inr b \<Rightarrow> Inr [TextContent (JSON_stringify b)])"
  by (simp add: text_content_def fetch_json_def split: prod.splits sum.splits)

lemma text_content_isl: "isl (fst r) \<Longrightarrow> isl (fst (text_content r))"
  by (cases r) (auto simp: text_content_def split: sum.splits)

lemma slack_list_channels_forwards:
  "handler (slack_list_channels c) f a n
     = text_content (getChannels f c (num_arg a ''limit'') (str_arg a ''cursor'') n)"
  by (simp add: slack_list_channels_def)

lemma slack_get_users_forwards:
  "handler (slack_get_users c) f a n
     = text_content (getUsers f c (num_arg a ''limit'') (str_arg a ''cursor'') n)"
  by (simp add: slack_get_users_def)

lemma slack_post_message_forwards:
  assumes "validates (schema (slack_post_message c)) a"
  shows "\<exists>channel_id text. str_arg a ''channel_id'' = Some channel_id
     \<and> str_arg a ''text'' = Some text
     \<and> handler (slack_post_message c) f a n = text_content (postMessage f c channel_id text n)"
proof -
  from validates_required_string [OF assms, of "schema (slack_post_message c) ! 0"]
  obtain x where x: "str_arg a ''channel_id'' = Some x" by (auto simp: slack_post_message_def)
  from validates_required_string [OF assms, of "schema (slack_post_message c) ! 1"]
  obtain y where y: "str_arg a ''text'' = Some y" by (auto simp: slack_post_message_def)
  from x y show ?thesis by (simp add: slack_post_message_def)
qed

lemma slack_reply_to_thread_forwards:
  assumes "validates (schema (slack_reply_to_thread c)) a"
  shows "\<exists>channel_id thread_ts text. str_arg a ''channel_id'' = Some channel_id
     \<and> str_arg a ''thread_ts'' = Some thread_ts \<and> str_arg a ''text'' = Some text
     \<and> handler (slack_reply_to_thread c) f a n
         = text_content (postReply f c channel_id thread_ts text n)"
proof -
  from validates_required_string [OF assms, of "schema (slack_reply_to_thread c) ! 0"]
  obtain x where x: "str_arg a ''channel_id'' = Some x" by (auto simp: slack_reply_to_thread_def)
  from validates_required_string [OF assms, of "schema (slack_reply_to_thread c) ! 1"]
  obtain y where y: "str_arg a ''thread_ts'' = Some y" by (auto simp: slack_reply_to_thread_def)
  from validates_required_string [OF assms, of "schema (slack_reply_to_thread c) ! 2"]
  obtain z where z: "str_arg a ''text'' = Some z" by (auto simp: slack_reply_to_thread_def)
  from x y z show ?thesis by (simp add: slack_reply_to_thread_def)
qed

lemma slack_add_reaction_forwards:
  assumes "validates (schema (slack_add_reaction c)) a"
  shows "\<exists>channel_id timestamp reaction. str_arg a ''channel_id'' = Some channel_id
     \<and> str_arg a ''timestamp'' = Some timestamp \<and> str_arg a ''reaction'' = Some reaction
     \<and> handler (slack_add_reaction c) f a n
         = text_content (addReaction f c channel_id timestamp reaction n)"
proof -
  from validates_required_string [OF assms, of "schema (slack_add_reaction c) ! 0"]
  obtain x where x: "str_arg a ''channel_id'' = Some x" by (auto simp: slack_add_reaction_def)
  from validates_required_string [OF assms, of "schema (slack_add_reaction c) ! 1"]
  obtain y where y: "str_arg a ''timestamp'' = Some y" by (auto simp: slack_add_reaction_def)
  from validates_required_string [OF assms, of "schema (slack_add_reaction c) ! 2"]
  obtain z where z: "str_arg a ''reaction'' = Some z" by (auto simp: slack_add_reaction_def)
  from x y z show ?thesis by (simp add: slack_add_reaction_def)
qed

lemma slack_get_channel_history_forwards:
  assumes "validates (schema (slack_get_channel_history c)) a"
  shows "\<exists>channel_id. str_arg a ''channel_id'' = Some channel_id
     \<and> handler (slack_get_channel_history c) f a n
         = text_content (getChannelHistory f c channel_id (num_arg a ''limit'') n)"
proof -
  from validates_required_string [OF assms, of "schema (slack_get_channel_history c) ! 0"]
  obtain x where x: "str_arg a ''channel_id'' = Some x"
    by (auto simp: slack_get_channel_history_def)
  then show ?thesis by (simp add: slack_get_channel_history_def)
qed

lemma slack_get_thread_replies_forwards:
  assumes "validates (schema (slack_get_thread_replies c)) a"
  shows "\<exists>channel_id thread_ts. str_arg a ''channel_id'' = Some channel_id
     \<and> str_arg a ''thread_ts'' = Some thread_ts
     \<and> handler (slack_get_thread_replies c) f a n
         = text_content (getThreadReplies f c channel_id thread_ts n)"
proof -
  from validates_required_string [OF assms, of "schema (slack_get_thread_replies c) ! 0"]
  obtain x where x: "str_arg a ''channel_id'' = Some x"
    by (auto simp: slack_get_thread_replies_def)
  from validates_required_string [OF assms, of "schema (slack_get_thread_replies c) ! 1"]
  obtain y where y: "str_arg a ''thread_ts'' = Some y"
    by (auto simp: slack_get_thread_replies_def)
  from x y show ?thesis by (simp add: slack_get_thread_replies_def)
qed

lemma slack_get_user_profile_forwards:
  assumes "validates (schema (slack_get_user_profile c)) a"
  shows "\<exists>user_id. str_arg a ''user_id'' = Some user_id
     \<and> handler (slack_get_user_profile c) f a n = text_content (getUserProfile f c user_id n)"
proof -
  from validates_required_string [OF assms, of "schema (slack_get_user_profile c) ! 0"]
  obtain x where x: "str_arg a ''user_id'' = Some x" by (auto simp: slack_get_user_profile_def)
  then show ?thesis by (simp add: slack_get_user_profile_def)
qed

lemma init_server_tools:
  "server_tools (init m) = server_tools m @
     [slack_list_channels (slackClient m), slack_post_message (slackClient m),
      slack_reply_to_thread (slackClient m), slack_add_reaction (slackClient m),
      slack_get_channel_history (slackClient m), slack_get_thread_replies (slackClient m),
      slack_get_users (slackClient m), slack_get_user_profile (slackClient m)]"
  by (simp add: init_def server_tool_def)

text \<open>A handler that sends one request and passes the answer on.\<close>

lemma one_request_handler:
  assumes "\<exists>r. h = text_content (fetch_json f r n)"
  shows "\<exists>r. sent (snd h) = sent n @ [r]
     \<and> fst h = (case fst (f (world n) r) of
                 Inl e \<Rightarrow> Inl e
               | Inr b \<Rightarrow> Inr [TextContent (JSON_stringify b)])"
  using assms text_content_fetch_json by blast

lemma registered_handlers_one_request:
  assumes t: "t \<in> set (server_tools (init m))" and fresh: "server_tools m = []"
    and v: "validates (schema t) a"
    and mode: "tool_name t = ''slack_list_channels'' \<longrightarrow> \<not> truthy_string (channelIds (slackClient m))"
  shows "\<exists>r. handler t f a n = text_content (fetch_json f r n)"
proof -
  let ?c = "slackClient m"
  from t fresh consider
      "t = slack_list_channels ?c" | "t = slack_post_message ?c"
    | "t = slack_reply_to_thread ?c" | "t = slack_add_reaction ?c"
    | "t = slack_get_channel_history ?c" | "t = slack_get_thread_replies ?c"
    | "t = slack_get_users ?c" | "t = slack_get_user_profile ?c"
    by (auto simp: init_server_tools)
  then show ?thesis
  proof cases
    case 1
    with mode have "\<not> truthy_string (channelIds ?c)" by (simp add: slack_list_channels_def)
    with 1 show ?thesis by (auto simp: slack_list_channels_forwards getChannels_def)
  next
    case 2
    with slack_post_message_forwards [of ?c a f n] v show ?thesis
      by (auto simp: postMessage_def)
  next
    case 3
    with slack_reply_to_thread_forwards [of ?c a f n] v show ?thesis
      by (auto simp: postReply_def)
  next
    case 4
    with slack_add_reaction_forwards [of ?c a f n] v show ?thesis
      by (auto simp: addReaction_def)
  next
    case 5
    with slack_get_channel_history_forwards [of ?c a f n] v show ?thesis
      by (auto simp: getChannelHistory_def)
  next
    case 6
    with slack_get_thread_replies_forwards [of ?c a f n] v show ?thesis
      by (auto simp: getThreadReplies_def)
  next
    case 7
    then show ?thesis by (auto simp: slack_get_users_forwards getUsers_def)
  next
    case 8
    with slack_get_user_profile_forwards [of ?c a f n] v show ?thesis
      by (auto simp: getUserProfile_def)
  qed
qed

lemma getChannels_pinned_failure:
  assumes "channelIds c = Some s" and "s \<noteq> []"
    and "Inl e \<in> set (exchange f (map (conversations_info_request c) (map trim (split_comma s)))
                      (world n))"
  shows "isl (fst (getChannels f c limit cursor n))"
proof -
  from getChannels_loop_failure [OF assms(3), of "[]"]
  obtain e' n' where "getChannels_loop f c (map trim (split_comma s)) [] n = (Inl e', n')"
    by (cases "getChannels_loop f c (map trim (split_comma s)) [] n") (auto simp: isl_def)
  with assms(1,2) show ?thesis by (simp add: getChannels_def)
qed

section \<open>The claims\<close>

subsection \<open>C1: channel listing with a pinned list\<close>

text \<open>
  Claim C1, as amended. Let the configured channel-id string be present and not empty.
  When every individual lookup delivers a decoded body other than \<^verbatim>\<open>null\<close>,
  \<open>getChannels\<close> returns the object
  \<^verbatim>\<open>{ok: true, channels, response_metadata: {next_cursor: ""}}\<close>, where \<open>channels\<close>
  holds exactly the channels of the lookups that answered with a truthy \<^verbatim>\<open>ok\<close> and a
  channel that is not archived, in the order of the pinned list, and one lookup is sent
  per id of the list, in order. When a lookup is rejected, after lookups that delivered
  bodies other than \<^verbatim>\<open>null\<close>, it is not skipped: \<open>getChannels\<close> fails with that
  rejection and sends no further lookup. In both cases the arguments \<open>limit\<close> and
  \<open>cursor\<close> have no effect on the run.
\<close>

theorem getChannels_pinned_lists_accepted_lookups_in_order:
  assumes "channelIds c = Some s" and "s \<noteq> []"
  shows "(exchange f (map (conversations_info_request c) (map trim (split_comma s))) (world n)
            = map Inr bodies
          \<and> JNull \<notin> set bodies \<longrightarrow>
          fst (getChannels f c limit cursor n)
            = Inr (JObj [(''ok'', JBool True),
                         (''channels'', JArr (listed_channels bodies)),
                         (''response_metadata'', JObj [(''next_cursor'', JStr [])])])
          \<and> sent (snd (getChannels f c limit cursor n))
            = sent n @ map (conversations_info_request c) (map trim (split_comma s)))
       \<and> (exchange f (map (conversations_info_request c) (map trim (split_comma s))) (world n)
            = map Inr bodies @ Inl e # rest
          \<and> JNull \<notin> set bodies \<longrightarrow>
          fst (getChannels f c limit cursor n) = Inl e
          \<and> sent (snd (getChannels f c limit cursor n))
            = sent n @ map (conversations_info_request c)
                (take (Suc (length bodies)) (map trim (split_comma s))))
       \<and> getChannels f c limit cursor n = getChannels f c limit' cursor' n"
proof -
  let ?ids = "map trim (split_comma s)"
  from assms have pinned: "truthy_string (channelIds c)" by simp
  have delivered: "fst (getChannels f c limit cursor n)
            = Inr (JObj [(''ok'', JBool True),
                         (''channels'', JArr (listed_channels bodies)),
                         (''response_metadata'', JObj [(''next_cursor'', JStr [])])])
          \<and> sent (snd (getChannels f c limit cursor n))
            = sent n @ map (conversations_info_request c) ?ids"
    if "exchange f (map (conversations_info_request c) ?ids) (world n) = map Inr bodies
          \<and> JNull \<notin> set bodies"
  proof -
    from that have x: "exchange f (map (conversations_info_request c) ?ids) (world n) = map Inr bodies"
      and nn: "JNull \<notin> set bodies" by simp_all
    from getChannels_loop_delivered [OF x nn, of "[]"] pinned assms(1)
    show ?thesis by (simp add: getChannels_def)
  qed
  have rejected: "fst (getChannels f c limit cursor n) = Inl e
          \<and> sent (snd (getChannels f c limit cursor n))
            = sent n @ map (conversations_info_request c) (take (Suc (length bodies)) ?ids)"
    if "exchange f (map (conversations_info_request c) ?ids) (world n)
            = map Inr bodies @ Inl e # rest
          \<and> JNull \<notin> set bodies"
  proof -
    from that have x: "exchange f (map (conversations_info_request c) ?ids) (world n)
            = map Inr bodies @ Inl e # rest"
      and nn: "JNull \<notin> set bodies" by simp_all
    from getChannels_loop_rejected [OF x nn, of "[]"] pinned assms(1)
    show ?thesis by (simp add: getChannels_def)
  qed
  have independent: "getChannels f c limit cursor n = getChannels f c limit' cursor' n"
    using pinned by (simp add: getChannels_def)
  from delivered rejected independent show ?thesis by blast
qed

text \<open>
  The scenario of the specification (the list \<^verbatim>\<open>C1,C2\<close>, where \<open>C2\<close> is archived), and
  the same list when every request is rejected.
\<close>

theorem getChannels_pinned_lists_accepted_lookups_in_order_witness:
  "channelIds pinned_client = Some ''C1,C2''
   \<and> exchange slack (map (conversations_info_request pinned_client)
         (map trim (split_comma ''C1,C2''))) (world start)
       = map Inr
           [JObj [(''ok'', JBool True),
                  (''channel'', JObj [(''id'', JStr ''C1''), (''is_archived'', JBool False)])],
            JObj [(''ok'', JBool True),
                  (''channel'', JObj [(''id'', JStr ''C2''), (''is_archived'', JBool True)])]]
   \<and> fst (getChannels slack pinned_client (Some 5) (Some ''abc'') start)
       = Inr (JObj [(''ok'', JBool True),
                    (''channels'',
                       JArr [JObj [(''id'', JStr ''C1''), (''is_archived'', JBool False)]]),
                    (''response_metadata'', JObj [(''next_cursor'', JStr [])])])
   \<and> exchange offline (map (conversations_info_request pinned_client)
         (map trim (split_comma ''C1,C2''))) (world start)
       = map Inr [] @ Inl (Rejected ''fetch failed'') # [Inl (Rejected ''fetch failed'')]
   \<and> fst (getChannels offline pinned_client (Some 5) (Some ''abc'') start)
       = Inl (Rejected ''fetch failed'')
   \<and> map search (sent (snd (getChannels offline pinned_client (Some 5) (Some ''abc'') start)))
       = [[(''channel'', ''C1'')]]"
proof -
  let ?b1 = "JObj [(''ok'', JBool True),
                  (''channel'', JObj [(''id'', JStr ''C1''), (''is_archived'', JBool False)])]"
  let ?b2 = "JObj [(''ok'', JBool True),
                  (''channel'', JObj [(''id'', JStr ''C2''), (''is_archived'', JBool True)])]"
  let ?e = "Rejected ''fetch failed''"
  have h1: "channelIds pinned_client = Some ''C1,C2''"
    by (simp add: pinned_client_def SlackClient_constructor_def)
  have h2: "''C1,C2'' \<noteq> []" by simp
  have h3: "exchange slack (map (conversations_info_request pinned_client)
         (map trim (split_comma ''C1,C2''))) (world start) = map Inr [?b1, ?b2]"
    by (simp add: trim_def is_space_def slack_def conversations_info_request_def start_def)
  have h4: "JNull \<notin> set [?b1, ?b2]" by simp
  have h5: "exchange offline (map (conversations_info_request pinned_client)
         (map trim (split_comma ''C1,C2''))) (world start) = map Inr [] @ Inl ?e # [Inl ?e]"
    by (simp add: trim_def is_space_def offline_def)
  have h6: "JNull \<notin> set ([] :: json list)" by simp
  have l: "listed_channels [?b1, ?b2] = [JObj [(''id'', JStr ''C1''), (''is_archived'', JBool False)]]"
    by (simp add: listed_channels_def List.map_filter_simps ok_not_archived_def)
  note d = getChannels_pinned_lists_accepted_lookups_in_order
    [OF h1 h2, where f = slack and n = start and bodies = "[?b1, ?b2]" and limit = "Some 5"
       and cursor = "Some ''abc''", THEN conjunct1, THEN mp, OF conjI, OF h3 h4]
  note r = getChannels_pinned_lists_accepted_lookups_in_order
    [OF h1 h2, where f = offline and n = start and bodies = "[]" and e = ?e
       and rest = "[Inl ?e]" and limit = "Some 5" and cursor = "Some ''abc''",
     THEN conjunct2, THEN conjunct1, THEN mp, OF conjI, OF h5 h6]
  from r have r2: "map search (sent (snd (getChannels offline pinned_client (Some 5) (Some ''abc'') start)))
       = [[(''channel'', ''C1'')]]"
    by (simp add: trim_def is_space_def start_def conversations_info_request_def)
  from d r r2 h1 h3 h5 l show ?thesis by (simp add: trim_def is_space_def)
qed

text \<open>
  Claim C1 as stated fails when the request of a lookup is rejected: the lookup of
  \<open>C1\<close> succeeds, the one of \<open>C2\<close> is rejected, and \<open>getChannels\<close> rejects with
  that error instead of returning an object without \<open>C2\<close>.
\<close>

theorem getChannels_pinned_rejected_lookup_counterexample:
  "channelIds pinned_client = Some ''C1,C2''
   \<and> exchange flaky (map (conversations_info_request pinned_client) [''C1'', ''C2''])
         (world start)
       = [Inr (JObj [(''ok'', JBool True),
                     (''channel'',
                        JObj [(''id'', JStr ''C1''), (''is_archived'', JBool False)])]),
          Inl (Rejected ''fetch failed'')]
   \<and> fst (getChannels flaky pinned_client None None start) = Inl (Rejected ''fetch failed'')"
  by (simp add: getChannels_def pinned_client_def SlackClient_constructor_def trim_def
        is_space_def fetch_json_def flaky_def slack_def offline_def start_def
        conversations_info_request_def pushed_channel_def)

subsection \<open>C2: decoded bodies are passed on, rejections propagate\<close>

text \<open>
  Claim C2, as amended. Every method of the client other than \<open>getChannels\<close> with a
  pinned list sends one request and returns the answer to it unchanged: the decoded
  body, whatever its \<^verbatim>\<open>ok\<close> field says, or the rejection. The handler of every
  registered tool, called with arguments that fit its schema, then returns the body
  serialised in one text item, or fails with the same rejection (for the channel
  listing: when no pinned list is configured). With a pinned list, a rejected lookup
  makes \<open>getChannels\<close> and the handler of the channel listing fail.
\<close>

theorem bodies_pass_through_except_pinned_listing:
  assumes "server_tools m = []"
  shows "fst (postMessage f c channel_id msg n)
           = fst (f (world n) (postMessage_request c channel_id msg))
   \<and> fst (postReply f c channel_id thread_ts msg n)
           = fst (f (world n) (postReply_request c channel_id thread_ts msg))
   \<and> fst (addReaction f c channel_id timestamp reaction n)
           = fst (f (world n) (addReaction_request c channel_id timestamp reaction))
   \<and> fst (getChannelHistory f c channel_id limit n)
           = fst (f (world n) (getChannelHistory_request c channel_id limit))
   \<and> fst (getThreadReplies f c channel_id thread_ts n)
           = fst (f (world n) (getThreadReplies_request c channel_id thread_ts))
   \<and> fst (getUsers f c limit cursor n) = fst (f (world n) (getUsers_request c limit cursor))
   \<and> fst (getUserProfile f c user_id n) = fst (f (world n) (getUserProfile_request c user_id))
   \<and> (channelIds c = None \<or> channelIds c = Some [] \<longrightarrow>
        fst (getChannels f c limit cursor n)
           = fst (f (world n) (conversations_list_request c limit cursor)))
   \<and> (\<forall>t \<in> set (server_tools (init m)). \<forall>a.
        validates (schema t) a
        \<and> (tool_name t = ''slack_list_channels'' \<longrightarrow>
             channelIds (slackClient m) = None \<or> channelIds (slackClient m) = Some [])
        \<longrightarrow> (\<exists>r. sent (snd (handler t f a n)) = sent n @ [r]
               \<and> fst (handler t f a n)
                   = (case fst (f (world n) r) of
                        Inl e \<Rightarrow> Inl e
                      | Inr b \<Rightarrow> Inr [TextContent (JSON_stringify b)])))
   \<and> (channelIds c = Some s \<and> s \<noteq> []
        \<and> Inl e \<in> set (exchange f (map (conversations_info_request c) (map trim (split_comma s)))
                         (world n))
        \<longrightarrow> isl (fst (getChannels f c limit cursor n))
          \<and> isl (fst (handler (slack_list_channels c) f a n)))"
proof -
  have p1: "fst (postMessage f c channel_id msg n)
           = fst (f (world n) (postMessage_request c channel_id msg))"
    by (simp add: postMessage_def fetch_json_fst)
  have p2: "fst (postReply f c channel_id thread_ts msg n)
           = fst (f (world n) (postReply_request c channel_id thread_ts msg))"
    by (simp add: postReply_def fetch_json_fst)
  have p3: "fst (addReaction f c channel_id timestamp reaction n)
           = fst (f (world n) (addReaction_request c channel_id timestamp reaction))"
    by (simp add: addReaction_def fetch_json_fst)
  have p4: "fst (getChannelHistory f c channel_id limit n)
           = fst (f (world n) (getChannelHistory_request c channel_id limit))"
    by (simp add: getChannelHistory_def fetch_json_fst)
  have p5: "fst (getThreadReplies f c channel_id thread_ts n)
           = fst (f (world n) (getThreadReplies_request c channel_id thread_ts))"
    by (simp add: getThreadReplies_def fetch_json_fst)
  have p6: "fst (getUsers f c limit cursor n) = fst (f (world n) (getUsers_request c limit cursor))"
    by (simp add: getUsers_def fetch_json_fst)
  have p7: "fst (getUserProfile f c user_id n) = fst (f (world n) (getUserProfile_request c user_id))"
    by (simp add: getUserProfile_def fetch_json_fst)
  have p8: "channelIds c = None \<or> channelIds c = Some [] \<longrightarrow>
        fst (getChannels f c limit cursor n)
           = fst (f (world n) (conversations_list_request c limit cursor))"
    by (auto simp: getChannels_def fetch_json_fst)
  have p9: "\<forall>t \<in> set (server_tools (init m)). \<forall>a.
        validates (schema t) a
        \<and> (tool_name t = ''slack_list_channels'' \<longrightarrow>
             channelIds (slackClient m) = None \<or> channelIds (slackClient m) = Some [])
        \<longrightarrow> (\<exists>r. sent (snd (handler t f a n)) = sent n @ [r]
               \<and> fst (handler t f a n)
                   = (case fst (f (world n) r) of
                        Inl e \<Rightarrow> Inl e
                      | Inr b \<Rightarrow> Inr [TextContent (JSON_stringify b)]))"
  proof (intro ballI allI impI)
    fix t a
    assume t: "t \<in> set (server_tools (init m))"
      and va: "validates (schema t) a
        \<and> (tool_name t = ''slack_list_channels'' \<longrightarrow>
             channelIds (slackClient m) = None \<or> channelIds (slackClient m) = Some [])"
    then have mode: "tool_name t = ''slack_list_channels'' \<longrightarrow>
        \<not> truthy_string (channelIds (slackClient m))"
      by auto
    from va have v: "validates (schema t) a" by simp
    from registered_handlers_one_request [OF t assms v mode, of f n]
    show "\<exists>r. sent (snd (handler t f a n)) = sent n @ [r]
               \<and> fst (handler t f a n)
                   = (case fst (f (world n) r) of
                        Inl e \<Rightarrow> Inl e
                      | Inr b \<Rightarrow> Inr [TextContent (JSON_stringify b)])"
      by (rule one_request_handler)
  qed
  have p10: "channelIds c = Some s \<and> s \<noteq> []
        \<and> Inl e \<in> set (exchange f (map (conversations_info_request c) (map trim (split_comma s)))
                         (world n))
        \<longrightarrow> isl (fst (getChannels f c limit cursor n))
          \<and> isl (fst (handler (slack_list_channels c) f a n))"
  proof (intro impI)
    assume h: "channelIds c = Some s \<and> s \<noteq> []
        \<and> Inl e \<in> set (exchange f (map (conversations_info_request c) (map trim (split_comma s)))
                         (world n))"
    then have a: "channelIds c = Some s" and b: "s \<noteq> []"
      and d: "Inl e \<in> set (exchange f (map (conversations_info_request c)
                (map trim (split_comma s))) (world n))"
      by simp_all
    have "isl (fst (getChannels f c lim cur n))" for lim cur
      by (rule getChannels_pinned_failure [OF a b d])
    then show "isl (fst (getChannels f c limit cursor n))
          \<and> isl (fst (handler (slack_list_channels c) f a n))"
      by (simp add: slack_list_channels_forwards text_content_isl)
  qed
  from p1 p2 p3 p4 p5 p6 p7 p8 p9 p10 show ?thesis by (intro conjI)
qed

theorem bodies_pass_through_except_pinned_listing_witness:
  \<open>server_tools fresh_server = []
   \<and> fst (postMessage slack open_client ''C9'' ''hi'' start) = Inr (JObj [(''ok'', JBool True)])
   \<and> fst (getChannelHistory offline open_client ''C1'' (Some 5) start)
       = Inl (Rejected ''fetch failed'')
   \<and> channelIds open_client = None
   \<and> fst (getChannels slack open_client None None start) = Inr (JObj [(''ok'', JBool True)])
   \<and> channelIds pinned_client = Some ''C1,C2''
   \<and> Inl (Rejected ''fetch failed'')
       \<in> set (exchange offline (map (conversations_info_request pinned_client)
                 (map trim (split_comma ''C1,C2''))) (world start))
   \<and> isl (fst (getChannels offline pinned_client None None start))
   \<and> isl (fst (handler (slack_list_channels pinned_client) offline [] start))\<close>
proof -
  have h: "server_tools fresh_server = []" by (simp add: fresh_server_def)
  have o: "channelIds open_client = None" by (simp add: open_client_def SlackClient_constructor_def)
  have p: "channelIds pinned_client = Some ''C1,C2''"
    by (simp add: pinned_client_def SlackClient_constructor_def)
  have x: "Inl (Rejected ''fetch failed'')
       \<in> set (exchange offline (map (conversations_info_request pinned_client)
                 (map trim (split_comma ''C1,C2''))) (world start))"
    by (simp add: offline_def)
  note open_run = bodies_pass_through_except_pinned_listing
    [OF h, where f = slack and c = open_client and channel_id = "''C9''" and msg = "''hi''"
       and n = start and limit = None and cursor = None]
  note off_run = bodies_pass_through_except_pinned_listing
    [OF h, where f = offline and c = open_client and channel_id = "''C1''" and n = start
       and limit = "Some 5"]
  note pin_run = bodies_pass_through_except_pinned_listing
    [OF h, where f = offline and c = pinned_client and n = start and limit = None
       and cursor = None and s = "''C1,C2''" and e = "Rejected ''fetch failed''" and a = "[]"]
  from open_run have a: "fst (postMessage slack open_client ''C9'' ''hi'' start)
      = fst (slack (world start) (postMessage_request open_client ''C9'' ''hi''))"
    by (rule conjunct1)
  note off_run2 = off_run [THEN conjunct2, THEN conjunct2, THEN conjunct2, THEN conjunct1]
  from off_run2 have b: "fst (getChannelHistory offline open_client ''C1'' (Some 5) start)
      = fst (offline (world start) (getChannelHistory_request open_client ''C1'' (Some 5)))" .
  note open_run2 = open_run [THEN conjunct2, THEN conjunct2, THEN conjunct2, THEN conjunct2,
    THEN conjunct2, THEN conjunct2, THEN conjunct2, THEN conjunct1, rule_format]
  from open_run2 o have c: "fst (getChannels slack open_client None None start)
      = fst (slack (world start) (conversations_list_request open_client None None))" by simp
  note pin_run2 = pin_run [THEN conjunct2, THEN conjunct2, THEN conjunct2, THEN conjunct2,
    THEN conjunct2, THEN conjunct2, THEN conjunct2, THEN conjunct2, THEN conjunct2, rule_format]
  from p x have d: "isl (fst (getChannels offline pinned_client None None start))
     \<and> isl (fst (handler (slack_list_channels pinned_client) offline [] start))"
    by (intro pin_run2 conjI) simp_all
  from h o p x a b c d show ?thesis
    by (simp add: slack_def offline_def postMessage_request_def conversations_list_request_def)
qed

text \<open>
  Claim C2 as stated fails for \<open>getChannels\<close> with a pinned list: the body of the lookup
  says \<^verbatim>\<open>ok: false\<close>, and the result is not that body but a new object with
  \<^verbatim>\<open>ok: true\<close> and no channel.
\<close>

theorem getChannels_pinned_replaces_body_counterexample:
  "channelIds unknown_client = Some ''C9''
   \<and> exchange slack [conversations_info_request unknown_client ''C9''] (world start)
       = [Inr (JObj [(''ok'', JBool False), (''error'', JStr ''channel_not_found'')])]
   \<and> sent (snd (getChannels slack unknown_client None None start))
       = [conversations_info_request unknown_client ''C9'']
   \<and> fst (getChannels slack unknown_client None None start)
       = Inr (JObj [(''ok'', JBool True), (''channels'', JArr []),
                    (''response_metadata'', JObj [(''next_cursor'', JStr [])])])"
  by (simp add: getChannels_def unknown_client_def SlackClient_constructor_def trim_def
        is_space_def fetch_json_def slack_def start_def conversations_info_request_def
        pushed_channel_def)

subsection \<open>C3: channel listing without a pinned list\<close>

text \<open>
  Claim C3, as amended. For a client without a pinned list and for every \<open>limit\<close> and
  \<open>cursor\<close>, \<open>getChannels\<close> sends exactly one request, to the listing endpoint, with the
  parameters \<^verbatim>\<open>types=public_channel\<close>, \<^verbatim>\<open>exclude_archived=true\<close>, \<open>limit\<close> equal
  to the minimum of the given limit (100 when absent) and 200, the team id of the client,
  and the cursor unchanged when one is given and it is not the empty string; the answer
  to that request is the result, unchanged.
\<close>

theorem getChannels_open_sends_one_listing_request:
  assumes "channelIds c = None"
  shows "sent (snd (getChannels f c limit cursor n))
           = sent n @ [conversations_list_request c limit cursor]
       \<and> fst (getChannels f c limit cursor n)
           = fst (f (world n) (conversations_list_request c limit cursor))
       \<and> conversations_list_request c limit cursor
           = \<lparr>url = ''https://slack.com/api/conversations.list'',
              search =
                [(''types'', ''public_channel''),
                 (''exclude_archived'', ''true''),
                 (''limit'', number_toString
                    (min (case limit of None \<Rightarrow> 100 | Some l \<Rightarrow> l) 200)),
                 (''team_id'', teamId c)]
                @ (case cursor of
                     None \<Rightarrow> []
                   | Some cur \<Rightarrow> if cur = [] then [] else [(''cursor'', cur)]),
              http_method = GET, headers = botHeaders c, body = None\<rparr>"
  using assms
  by (cases limit)
     (simp_all add: getChannels_def fetch_json_fst fetch_json_sent conversations_list_request_def
        split: option.splits)

theorem getChannels_open_sends_one_listing_request_witness:
  "channelIds open_client = None
   \<and> sent (snd (getChannels slack open_client (Some 500) (Some ''dXNlcjpVMDYx'') start))
       = [\<lparr>url = ''https://slack.com/api/conversations.list'',
           search = [(''types'', ''public_channel''), (''exclude_archived'', ''true''),
                     (''limit'', ''200''), (''team_id'', ''T1''),
                     (''cursor'', ''dXNlcjpVMDYx'')],
           http_method = GET,
           headers = [(''Authorization'', ''Bearer xoxb-1''),
                      (''Content-Type'', ''application/json'')],
           body = None\<rparr>]
   \<and> fst (getChannels slack open_client (Some 500) (Some ''dXNlcjpVMDYx'') start)
       = Inr (JObj [(''ok'', JBool True)])"
proof -
  have h: "channelIds open_client = None"
    by (simp add: open_client_def SlackClient_constructor_def)
  from getChannels_open_sends_one_listing_request
         [OF h, of slack "Some 500" "Some ''dXNlcjpVMDYx''" start]
  show ?thesis
    by (simp add: h open_client_def SlackClient_constructor_def start_def slack_def
          number_toString_def digits.simps)
qed

text \<open>
  Claim C3 as stated fails for a cursor that is supplied as the empty string: the test
  \<^verbatim>\<open>if (cursor)\<close> leaves it out of the request.
\<close>

theorem getChannels_open_empty_cursor_counterexample:
  "channelIds open_client = None
   \<and> map search (sent (snd (getChannels slack open_client (Some 50) (Some []) start)))
       = [[(''types'', ''public_channel''), (''exclude_archived'', ''true''),
           (''limit'', ''50''), (''team_id'', ''T1'')]]"
  by (simp add: getChannels_def fetch_json_def conversations_list_request_def open_client_def
        SlackClient_constructor_def start_def slack_def number_toString_def digits.simps)

subsection \<open>C4: the registered tools\<close>

text \<open>
  Claim C4, as amended. On a server without tools, \<open>init\<close> registers exactly eight
  tools, with the names and the parameters (name, type, optional or required, a
  description that is not empty) listed below. Called with arguments that fit its
  schema, the handler of each tool passes them to the method of the client that belongs
  to the tool, and returns the result of the method serialised with
  \<^verbatim>\<open>JSON.stringify\<close> in a single text item; a rejection of the method is the
  rejection of the handler.
\<close>

theorem init_registers_eight_tools:
  assumes "server_tools m = []"
  shows "length (server_tools (init m)) = 8
   \<and> map tool_name (server_tools (init m))
       = [''slack_list_channels'', ''slack_post_message'', ''slack_reply_to_thread'',
          ''slack_add_reaction'', ''slack_get_channel_history'', ''slack_get_thread_replies'',
          ''slack_get_users'', ''slack_get_user_profile'']
   \<and> map (\<lambda>t. map (\<lambda>p. (pname p, ztype p, optional p)) (schema t)) (server_tools (init m))
       = [[(''limit'', ZNumber, True), (''cursor'', ZString, True)],
          [(''channel_id'', ZString, False), (''text'', ZString, False)],
          [(''channel_id'', ZString, False), (''thread_ts'', ZString, False),
           (''text'', ZString, False)],
          [(''channel_id'', ZString, False), (''timestamp'', ZString, False),
           (''reaction'', ZString, False)],
          [(''channel_id'', ZString, False), (''limit'', ZNumber, True)],
          [(''channel_id'', ZString, False), (''thread_ts'', ZString, False)],
          [(''cursor'', ZString, True), (''limit'', ZNumber, True)],
          [(''user_id'', ZString, False)]]
   \<and> (\<forall>t \<in> set (server_tools (init m)). \<forall>p \<in> set (schema t). description p \<noteq> [])
   \<and> handler (server_tools (init m) ! 0) f a n
       = text_content (getChannels f (slackClient m) (num_arg a ''limit'') (str_arg a ''cursor'') n)
   \<and> (validates (schema (server_tools (init m) ! 1)) a \<longrightarrow>
        (\<exists>channel_id text. str_arg a ''channel_id'' = Some channel_id
           \<and> str_arg a ''text'' = Some text
           \<and> handler (server_tools (init m) ! 1) f a n
               = text_content (postMessage f (slackClient m) channel_id text n)))
   \<and> (validates (schema (server_tools (init m) ! 2)) a \<longrightarrow>
        (\<exists>channel_id thread_ts text. str_arg a ''channel_id'' = Some channel_id
           \<and> str_arg a ''thread_ts'' = Some thread_ts \<and> str_arg a ''text'' = Some text
           \<and> handler (server_tools (init m) ! 2) f a n
               = text_content (postReply f (slackClient m) channel_id thread_ts text n)))
   \<and> (validates (schema (server_tools (init m) ! 3)) a \<longrightarrow>
        (\<exists>channel_id timestamp reaction. str_arg a ''channel_id'' = Some channel_id
           \<and> str_arg a ''timestamp'' = Some timestamp \<and> str_arg a ''reaction'' = Some reaction
           \<and> handler (server_tools (init m) ! 3) f a n
               = text_content (addReaction f (slackClient m) channel_id timestamp reaction n)))
   \<and> (validates (schema (server_tools (init m) ! 4)) a \<longrightarrow>
        (\<exists>channel_id. str_arg a ''channel_id'' = Some channel_id
           \<and> handler (server_tools (init m) ! 4) f a n
               = text_content
                   (getChannelHistory f (slackClient m) channel_id (num_arg a ''limit'') n)))
   \<and> (validates (schema (server_tools (init m) ! 5)) a \<longrightarrow>
        (\<exists>channel_id thread_ts. str_arg a ''channel_id'' = Some channel_id
           \<and> str_arg a ''thread_ts'' = Some thread_ts
           \<and> handler (server_tools (init m) ! 5) f a n
               = text_content (getThreadReplies f (slackClient m) channel_id thread_ts n)))
   \<and> handler (server_tools (init m) ! 6) f a n
       = text_content (getUsers f (slackClient m) (num_arg a ''limit'') (str_arg a ''cursor'') n)
   \<and> (validates (schema (server_tools (init m) ! 7)) a \<longrightarrow>
        (\<exists>user_id. str_arg a ''user_id'' = Some user_id
           \<and> handler (server_tools (init m) ! 7) f a n
               = text_content (getUserProfile f (slackClient m) user_id n)))
   \<and> text_content (Inr v, n') = (Inr [TextContent (JSON_stringify v)], n')
   \<and> text_content (Inl e, n') = (Inl e, n')"
proof -
  let ?c = "slackClient m"
  have tools: "server_tools (init m) =
     [slack_list_channels ?c, slack_post_message ?c, slack_reply_to_thread ?c,
      slack_add_reaction ?c, slack_get_channel_history ?c, slack_get_thread_replies ?c,
      slack_get_users ?c, slack_get_user_profile ?c]"
    using assms by (simp add: init_server_tools)
  have len: "length (server_tools (init m)) = 8" by (simp add: tools)
  have names: "map tool_name (server_tools (init m))
       = [''slack_list_channels'', ''slack_post_message'', ''slack_reply_to_thread'',
          ''slack_add_reaction'', ''slack_get_channel_history'', ''slack_get_thread_replies'',
          ''slack_get_users'', ''slack_get_user_profile'']"
    by (simp add: tools slack_list_channels_def slack_post_message_def
          slack_reply_to_thread_def slack_add_reaction_def slack_get_channel_history_def
          slack_get_thread_replies_def slack_get_users_def slack_get_user_profile_def)
  have schemas: "map (\<lambda>t. map (\<lambda>p. (pname p, ztype p, optional p)) (schema t))
        (server_tools (init m))
       = [[(''limit'', ZNumber, True), (''cursor'', ZString, True)],
          [(''channel_id'', ZString, False), (''text'', ZString, False)],
          [(''channel_id'', ZString, False), (''thread_ts'', ZString, False),
           (''text'', ZString, False)],
          [(''channel_id'', ZString, False), (''timestamp'', ZString, False),
           (''reaction'', ZString, False)],
          [(''channel_id'', ZString, False), (''limit'', ZNumber, True)],
          [(''channel_id'', ZString, False), (''thread_ts'', ZString, False)],
          [(''cursor'', ZString, True), (''limit'', ZNumber, True)],
          [(''user_id'', ZString, False)]]"
    by (simp add: tools slack_list_channels_def slack_post_message_def
          slack_reply_to_thread_def slack_add_reaction_def slack_get_channel_history_def
          slack_get_thread_replies_def slack_get_users_def slack_get_user_profile_def)
  have descr: "\<forall>t \<in> set (server_tools (init m)). \<forall>p \<in> set (schema t). description p \<noteq> []"
    by (simp add: tools slack_list_channels_def slack_post_message_def
          slack_reply_to_thread_def slack_add_reaction_def slack_get_channel_history_def
          slack_get_thread_replies_def slack_get_users_def slack_get_user_profile_def
          thread_ts_description_def)
  have h0: "handler (server_tools (init m) ! 0) f a n
       = text_content (getChannels f ?c (num_arg a ''limit'') (str_arg a ''cursor'') n)"
    by (simp add: tools slack_list_channels_forwards)
  have h1: "validates (schema (server_tools (init m) ! 1)) a \<longrightarrow>
        (\<exists>channel_id text. str_arg a ''channel_id'' = Some channel_id
           \<and> str_arg a ''text'' = Some text
           \<and> handler (server_tools (init m) ! 1) f a n
               = text_content (postMessage f ?c channel_id text n))"
    using slack_post_message_forwards [of ?c a f n] by (simp add: tools, blast)
  have h2: "validates (schema (server_tools (init m) ! 2)) a \<longrightarrow>
        (\<exists>channel_id thread_ts text. str_arg a ''channel_id'' = Some channel_id
           \<and> str_arg a ''thread_ts'' = Some thread_ts \<and> str_arg a ''text'' = Some text
           \<and> handler (server_tools (init m) ! 2) f a n
               = text_content (postReply f ?c channel_id thread_ts text n))"
    using slack_reply_to_thread_forwards [of ?c a f n] by (simp add: tools, blast)
  have h3: "validates (schema (server_tools (init m) ! 3)) a \<longrightarrow>
        (\<exists>channel_id timestamp reaction. str_arg a ''channel_id'' = Some channel_id
           \<and> str_arg a ''timestamp'' = Some timestamp \<and> str_arg a ''reaction'' = Some reaction
           \<and> handler (server_tools (init m) ! 3) f a n
               = text_content (addReaction f ?c channel_id timestamp reaction n))"
    using slack_add_reaction_forwards [of ?c a f n] by (simp add: tools, blast)
  have h4: "validates (schema (server_tools (init m) ! 4)) a \<longrightarrow>
        (\<exists>channel_id. str_arg a ''channel_id'' = Some channel_id
           \<and> handler (server_tools (init m) ! 4) f a n
               = text_content (getChannelHistory f ?c channel_id (num_arg a ''limit'') n))"
    using slack_get_channel_history_forwards [of ?c a f n] by (simp add: tools, blast)
  have h5: "validates (schema (server_tools (init m) ! 5)) a \<longrightarrow>
        (\<exists>channel_id thread_ts. str_arg a ''channel_id'' = Some channel_id
           \<and> str_arg a ''thread_ts'' = Some thread_ts
           \<and> handler (server_tools (init m) ! 5) f a n
               = text_content (getThreadReplies f ?c channel_id thread_ts n))"
    using slack_get_thread_replies_forwards [of ?c a f n] by (simp add: tools, blast)
  have h6: "handler (server_tools (init m) ! 6) f a n
       = text_content (getUsers f ?c (num_arg a ''limit'') (str_arg a ''cursor'') n)"
    by (simp add: tools slack_get_users_forwards)
  have h7: "validates (schema (server_tools (init m) ! 7)) a \<longrightarrow>
        (\<exists>user_id. str_arg a ''user_id'' = Some user_id
           \<and> handler (server_tools (init m) ! 7) f a n
               = text_content (getUserProfile f ?c user_id n))"
    using slack_get_user_profile_forwards [of ?c a f n] by (simp add: tools, blast)
  have w1: "text_content (Inr v, n') = (Inr [TextContent (JSON_stringify v)], n')"
    by (simp add: text_content_def)
  have w2: "text_content (Inl e, n') = (Inl e, n')"
    by (simp add: text_content_def)
  from len names schemas descr h0 h1 h2 h3 h4 h5 h6 h7 w1 w2 show ?thesis by (intro conjI)
qed

theorem init_registers_eight_tools_witness:
  \<open>server_tools fresh_server = []
   \<and> length (server_tools (init fresh_server)) = 8
   \<and> validates (schema (server_tools (init fresh_server) ! 1))
       [(''channel_id'', AStr ''C1''), (''text'', AStr ''hi'')]
   \<and> fst (handler (server_tools (init fresh_server) ! 1) slack
            [(''channel_id'', AStr ''C1''), (''text'', AStr ''hi'')] start)
       = Inr [TextContent ''{"ok":true}'']\<close>
proof -
  let ?a = "[(''channel_id'', AStr ''C1''), (''text'', AStr ''hi'')]"
  have h: "server_tools fresh_server = []" by (simp add: fresh_server_def)
  have v: "validates (schema (server_tools (init fresh_server) ! 1)) ?a"
    by (simp add: init_server_tools h slack_post_message_def validates_def)
  note inst = init_registers_eight_tools [OF h, of slack ?a start]
  from inst have len: "length (server_tools (init fresh_server)) = 8" by (rule conjunct1)
  note post = inst [THEN conjunct2, THEN conjunct2, THEN conjunct2, THEN conjunct2,
    THEN conjunct2, THEN conjunct1, rule_format]
  from post [OF v] obtain channel msg where args: "str_arg ?a ''channel_id'' = Some channel"
      "str_arg ?a ''text'' = Some msg"
    and run: "handler (server_tools (init fresh_server) ! 1) slack ?a start
               = text_content (postMessage slack (slackClient fresh_server) channel msg start)"
    by blast
  from args have "channel = ''C1''" "msg = ''hi''" by (simp_all add: str_arg_def)
  with run have "fst (handler (server_tools (init fresh_server) ! 1) slack ?a start)
       = Inr [TextContent (JSON_stringify (JObj [(''ok'', JBool True)]))]"
    by (simp add: text_content_def postMessage_def fetch_json_def slack_def
          postMessage_request_def)
  with h v len show ?thesis by (simp add: quote_def escape_char_def)
qed

text \<open>Claim C4 as stated fails on the number of tools: there are eight, not nine.\<close>

theorem init_registers_nine_tools_counterexample:
  "server_tools fresh_server = [] \<and> length (server_tools (init fresh_server)) \<noteq> 9"
  by (simp add: fresh_server_def init_def server_tool_def)

subsection \<open>C5: a reply is a message with a parent\<close>

text \<open>
  Claim C5. \<open>postReply\<close> and \<open>postMessage\<close> each send one request; the two requests have
  the same endpoint, the same method, the same headers and no query; the body of
  \<open>postMessage\<close> is the serialised object with the fields \<open>channel\<close> and \<open>text\<close>, and
  the body of \<open>postReply\<close> is the same object with the one further field \<open>thread_ts\<close>,
  set to the timestamp of the parent.
\<close>

theorem postReply_is_postMessage_with_thread_ts:
  "sent (snd (postMessage f c channel_id text n))
     = sent n @ [postMessage_request c channel_id text]
   \<and> sent (snd (postReply f c channel_id thread_ts text n))
     = sent n @ [postReply_request c channel_id thread_ts text]
   \<and> url (postReply_request c channel_id thread_ts text)
     = url (postMessage_request c channel_id text)
   \<and> search (postReply_request c channel_id thread_ts text)
     = search (postMessage_request c channel_id text)
   \<and> http_method (postReply_request c channel_id thread_ts text)
     = http_method (postMessage_request c channel_id text)
   \<and> headers (postReply_request c channel_id thread_ts text)
     = headers (postMessage_request c channel_id text)
   \<and> body (postMessage_request c channel_id text)
     = Some (JSON_stringify (JObj [(''channel'', JStr channel_id), (''text'', JStr text)]))
   \<and> body (postReply_request c channel_id thread_ts text)
     = Some (JSON_stringify (JObj [(''channel'', JStr channel_id),
          (''thread_ts'', JStr thread_ts), (''text'', JStr text)]))"
  by (simp add: postMessage_def postReply_def fetch_json_sent postMessage_request_def
        postReply_request_def)

theorem postReply_is_postMessage_with_thread_ts_witness:
  \<open>map body (sent (snd (postMessage slack open_client ''C1'' ''hi'' start)))
     = [Some ''{"channel":"C1","text":"hi"}'']
   \<and> map body (sent (snd (postReply slack open_client ''C1'' ''123.456'' ''hi'' start)))
     = [Some ''{"channel":"C1","thread_ts":"123.456","text":"hi"}'']\<close>
  using postReply_is_postMessage_with_thread_ts [of slack open_client "''C1''" "''hi''" start "''123.456''"]
  by (simp add: start_def quote_def escape_char_def)

subsection \<open>C6: the constructor\<close>

text \<open>
  Claim C6, as amended. When the bot token or the team id of the environment is missing
  or the empty string, the constructor throws, so that no server and no tool exists;
  when both are present and not empty, it returns a server whose client holds exactly
  this token (as bearer credential), this team id and the configured channel ids, and
  which has no tool yet.
\<close>

theorem SlackMCP_constructor_requires_token_and_team:
  "(SLACK_BOT_TOKEN env = None \<or> SLACK_BOT_TOKEN env = Some []
      \<or> SLACK_TEAM_ID env = None \<or> SLACK_TEAM_ID env = Some [] \<longrightarrow>
      (SlackMCP_constructor env :: error + 'w SlackMCP)
        = Inl (Error ''SLACK_BOT_TOKEN and SLACK_TEAM_ID environment variables are required''))
   \<and> (SLACK_BOT_TOKEN env = Some token \<and> token \<noteq> []
        \<and> SLACK_TEAM_ID env = Some team \<and> team \<noteq> [] \<longrightarrow>
      (SlackMCP_constructor env :: error + 'w SlackMCP)
        = Inr \<lparr>slackClient =
                 \<lparr>botHeaders = [(''Authorization'', ''Bearer '' @ token),
                                (''Content-Type'', ''application/json'')],
                  teamId = team,
                  channelIds = SLACK_CHANNEL_IDS env\<rparr>,
               server_tools = []\<rparr>)"
  by (auto simp: SlackMCP_constructor_def SlackClient_constructor_def)

theorem SlackMCP_constructor_requires_token_and_team_witness:
  "SLACK_BOT_TOKEN missing_token_env = None
   \<and> (SlackMCP_constructor missing_token_env :: error + nat SlackMCP)
       = Inl (Error ''SLACK_BOT_TOKEN and SLACK_TEAM_ID environment variables are required'')
   \<and> SLACK_BOT_TOKEN complete_env = Some ''xoxb-1'' \<and> SLACK_TEAM_ID complete_env = Some ''T1''
   \<and> (SlackMCP_constructor complete_env :: error + nat SlackMCP)
       = Inr \<lparr>slackClient =
                \<lparr>botHeaders = [(''Authorization'', ''Bearer xoxb-1''),
                               (''Content-Type'', ''application/json'')],
                 teamId = ''T1'',
                 channelIds = Some ''C1,C2''\<rparr>,
              server_tools = []\<rparr>"
  using SlackMCP_constructor_requires_token_and_team
          [of missing_token_env "[]" "[]", where ?'w = nat]
        SlackMCP_constructor_requires_token_and_team
          [of complete_env "''xoxb-1''" "''T1''", where ?'w = nat]
  by (simp add: missing_token_env_def complete_env_def)

text \<open>
  Claim C6 as stated fails when a variable is present with the empty string as value:
  both variables are present and the constructor throws.
\<close>

theorem SlackMCP_constructor_empty_token_counterexample:
  "SLACK_BOT_TOKEN empty_token_env = Some [] \<and> SLACK_TEAM_ID empty_token_env = Some ''T1''
   \<and> (SlackMCP_constructor empty_token_env :: error + nat SlackMCP)
       = Inl (Error ''SLACK_BOT_TOKEN and SLACK_TEAM_ID environment variables are required'')"
  by (simp add: SlackMCP_constructor_def empty_token_env_def)

subsection \<open>C7: adding a reaction\<close>

text \<open>
  Claim C7. \<open>addReaction\<close> sends one POST request to the reaction endpoint whose body is
  the serialised object with exactly the fields \<open>channel\<close>, \<open>timestamp\<close> and \<open>name\<close>,
  and returns the answer to it unchanged; for the channel \<open>C1\<close>, the timestamp
  \<open>123.456\<close> and the reaction \<open>+1\<close> the body is
  \<^verbatim>\<open>{"channel":"C1","timestamp":"123.456","name":"+1"}\<close>.
\<close>

theorem addReaction_posts_channel_timestamp_name:
  \<open>sent (snd (addReaction f c channel_id timestamp reaction n))
      = sent n @ [addReaction_request c channel_id timestamp reaction]
   \<and> fst (addReaction f c channel_id timestamp reaction n)
      = fst (f (world n) (addReaction_request c channel_id timestamp reaction))
   \<and> addReaction_request c channel_id timestamp reaction
      = \<lparr>url = ''https://slack.com/api/reactions.add'', search = [], http_method = POST,
         headers = botHeaders c,
         body = Some (JSON_stringify (JObj [(''channel'', JStr channel_id),
                  (''timestamp'', JStr timestamp), (''name'', JStr reaction)]))\<rparr>
   \<and> body (addReaction_request c ''C1'' ''123.456'' ''+1'')
      = Some ''{"channel":"C1","timestamp":"123.456","name":"+1"}''\<close>
  by (simp add: addReaction_def fetch_json_fst fetch_json_sent addReaction_request_def
        quote_def escape_char_def)

theorem addReaction_posts_channel_timestamp_name_witness:
  \<open>sent (snd (addReaction slack open_client ''C1'' ''123.456'' ''+1'' start))
      = [\<lparr>url = ''https://slack.com/api/reactions.add'', search = [], http_method = POST,
          headers = [(''Authorization'', ''Bearer xoxb-1''),
                     (''Content-Type'', ''application/json'')],
          body = Some ''{"channel":"C1","timestamp":"123.456","name":"+1"}''\<rparr>]
   \<and> fst (addReaction slack open_client ''C1'' ''123.456'' ''+1'' start)
      = Inr (JObj [(''ok'', JBool True)])\<close>
  using addReaction_posts_channel_timestamp_name [of slack open_client "''C1''" "''123.456''" "''+1''" start]
  by (simp add: start_def slack_def open_client_def SlackClient_constructor_def
        quote_def escape_char_def)

subsection \<open>C8: which mode is active\<close>

text \<open>
  Claim C8. With the empty string as configured channel ids, \<open>getChannels\<close> sends the one
  listing request of the open mode. The first request of a call is a channel lookup if
  and only if the configured string is present and not empty, and the call sends
  exactly the one listing request if and only if it is not.
\<close>

theorem getChannels_pinned_mode_iff_nonempty_string:
  "(channelIds c = Some [] \<longrightarrow>
      sent (snd (getChannels f c limit cursor n))
        = sent n @ [conversations_list_request c limit cursor]
      \<and> fst (getChannels f c limit cursor n)
        = fst (f (world n) (conversations_list_request c limit cursor)))
   \<and> ((\<exists>s. channelIds c = Some s \<and> s \<noteq> []) \<longleftrightarrow>
        (\<exists>r rs. sent (snd (getChannels f c limit cursor n)) = sent n @ r # rs
           \<and> url r = ''https://slack.com/api/conversations.info''))
   \<and> ((\<exists>s. channelIds c = Some s \<and> s \<noteq> []) \<longleftrightarrow>
        sent (snd (getChannels f c limit cursor n))
          \<noteq> sent n @ [conversations_list_request c limit cursor])"
proof -
  have open_run: "sent (snd (getChannels f c limit cursor n))
        = sent n @ [conversations_list_request c limit cursor]
      \<and> fst (getChannels f c limit cursor n)
        = fst (f (world n) (conversations_list_request c limit cursor))"
    if "\<not> (\<exists>s. channelIds c = Some s \<and> s \<noteq> [])"
  proof -
    from that have "\<not> truthy_string (channelIds c)" by (cases "channelIds c") auto
    then show ?thesis by (simp add: getChannels_open fetch_json_sent fetch_json_fst)
  qed
  have pinned_run: "\<exists>r rs. sent (snd (getChannels f c limit cursor n)) = sent n @ r # rs
           \<and> url r = ''https://slack.com/api/conversations.info''"
    if "\<exists>s. channelIds c = Some s \<and> s \<noteq> []"
  proof -
    from that obtain s where s: "channelIds c = Some s" "s \<noteq> []" by blast
    from getChannels_pinned_sent [OF s, of f limit cursor n] obtain k where k: "0 < k"
      "sent (snd (getChannels f c limit cursor n))
         = sent n @ map (conversations_info_request c) (take k (map trim (split_comma s)))"
      by blast
    obtain p ps where sp: "split_comma s = p # ps"
      using split_comma_nonempty [of s] by (cases "split_comma s") auto
    from k(1) obtain j where j: "k = Suc j" by (cases k) auto
    from k(2) sp j show ?thesis by (simp add: conversations_info_request_def)
  qed
  have list_url: "url (conversations_list_request c limit cursor)
      \<noteq> ''https://slack.com/api/conversations.info''"
    by (simp add: conversations_list_request_def)
  have c1: "channelIds c = Some [] \<longrightarrow>
      sent (snd (getChannels f c limit cursor n))
        = sent n @ [conversations_list_request c limit cursor]
      \<and> fst (getChannels f c limit cursor n)
        = fst (f (world n) (conversations_list_request c limit cursor))"
    using open_run by auto
  have c2: "(\<exists>s. channelIds c = Some s \<and> s \<noteq> []) \<longleftrightarrow>
        (\<exists>r rs. sent (snd (getChannels f c limit cursor n)) = sent n @ r # rs
           \<and> url r = ''https://slack.com/api/conversations.info'')"
  proof
    assume "\<exists>s. channelIds c = Some s \<and> s \<noteq> []"
    then show "\<exists>r rs. sent (snd (getChannels f c limit cursor n)) = sent n @ r # rs
           \<and> url r = ''https://slack.com/api/conversations.info''"
      by (rule pinned_run)
  next
    assume "\<exists>r rs. sent (snd (getChannels f c limit cursor n)) = sent n @ r # rs
           \<and> url r = ''https://slack.com/api/conversations.info''"
    then obtain r rs where r: "sent (snd (getChannels f c limit cursor n)) = sent n @ r # rs"
      "url r = ''https://slack.com/api/conversations.info''" by blast
    show "\<exists>s. channelIds c = Some s \<and> s \<noteq> []"
    proof (rule ccontr)
      assume "\<not> (\<exists>s. channelIds c = Some s \<and> s \<noteq> [])"
      from open_run [OF this] r(1) have "r = conversations_list_request c limit cursor" by simp
      with r(2) list_url show False by simp
    qed
  qed
  have c3: "(\<exists>s. channelIds c = Some s \<and> s \<noteq> []) \<longleftrightarrow>
        sent (snd (getChannels f c limit cursor n))
          \<noteq> sent n @ [conversations_list_request c limit cursor]"
  proof
    assume "\<exists>s. channelIds c = Some s \<and> s \<noteq> []"
    from pinned_run [OF this] obtain r rs where
      r: "sent (snd (getChannels f c limit cursor n)) = sent n @ r # rs"
      "url r = ''https://slack.com/api/conversations.info''" by blast
    show "sent (snd (getChannels f c limit cursor n))
          \<noteq> sent n @ [conversations_list_request c limit cursor]"
    proof
      assume "sent (snd (getChannels f c limit cursor n))
          = sent n @ [conversations_list_request c limit cursor]"
      with r(1) have "r = conversations_list_request c limit cursor" by simp
      with r(2) list_url show False by simp
    qed
  next
    assume ne: "sent (snd (getChannels f c limit cursor n))
          \<noteq> sent n @ [conversations_list_request c limit cursor]"
    show "\<exists>s. channelIds c = Some s \<and> s \<noteq> []"
    proof (rule ccontr)
      assume "\<not> (\<exists>s. channelIds c = Some s \<and> s \<noteq> [])"
      from open_run [OF this] ne show False by simp
    qed
  qed
  from c1 c2 c3 show ?thesis by (intro conjI)
qed

theorem getChannels_pinned_mode_iff_nonempty_string_witness:
  "channelIds (open_client\<lparr>channelIds := Some []\<rparr>) = Some []
   \<and> sent (snd (getChannels slack (open_client\<lparr>channelIds := Some []\<rparr>) None None start))
       = sent start @ [conversations_list_request (open_client\<lparr>channelIds := Some []\<rparr>) None None]
   \<and> fst (getChannels slack (open_client\<lparr>channelIds := Some []\<rparr>) None None start)
       = Inr (JObj [(''ok'', JBool True)])"
proof -
  have h: "channelIds (open_client\<lparr>channelIds := Some []\<rparr>) = Some []" by simp
  from getChannels_pinned_mode_iff_nonempty_string
         [of "open_client\<lparr>channelIds := Some []\<rparr>" slack None None start] h
  have "sent (snd (getChannels slack (open_client\<lparr>channelIds := Some []\<rparr>) None None start))
       = sent start @ [conversations_list_request (open_client\<lparr>channelIds := Some []\<rparr>) None None]
   \<and> fst (getChannels slack (open_client\<lparr>channelIds := Some []\<rparr>) None None start)
       = fst (slack (world start)
           (conversations_list_request (open_client\<lparr>channelIds := Some []\<rparr>) None None))"
    by blast
  then show ?thesis
    by (simp add: slack_def conversations_list_request_def)
qed

subsection \<open>C9: the ids of the pinned list\<close>

text \<open>
  Claim C9. Let the configured string be a list of elements separated by commas, each
  element written with any white space before and after it, and let the string not be
  empty (pinned mode). When no element contains a comma or begins or ends with white
  space, the ids obtained by splitting at the commas and trimming are exactly the
  elements, in order: the lookups sent are those of the elements, in order, up to the
  point where the call ends, and all of them when every lookup delivers a body other
  than \<^verbatim>\<open>null\<close>. For arbitrary elements, the list written with the white space gives
  the same run as the list written without it (when that one is in pinned mode too), and
  the lookups sent are those of the trimmed pieces of the list written without.
\<close>

theorem getChannels_pinned_ids_split_and_trimmed:
  assumes "\<forall>(l, i, r) \<in> set xs. list_all is_space l \<and> list_all is_space r"
    and "join '','' (map (\<lambda>(l, i, r). l @ i @ r) xs) \<noteq> []"
  shows "((\<forall>(l, i, r) \<in> set xs.
            CHR '','' \<notin> set i \<and> (i = [] \<or> \<not> is_space (hd i) \<and> \<not> is_space (last i))) \<longrightarrow>
          map trim (split_comma (join '','' (map (\<lambda>(l, i, r). l @ i @ r) xs)))
            = map (\<lambda>(l, i, r). i) xs
          \<and> (\<exists>k. 0 < k \<and> k \<le> length xs
               \<and> sent (snd (getChannels f
                    (c\<lparr>channelIds := Some (join '','' (map (\<lambda>(l, i, r). l @ i @ r) xs))\<rparr>)
                    limit cursor n))
                 = sent n @ map (conversations_info_request c)
                     (take k (map (\<lambda>(l, i, r). i) xs)))
          \<and> (exchange f (map (conversations_info_request c) (map (\<lambda>(l, i, r). i) xs)) (world n)
                = map Inr bodies
              \<and> JNull \<notin> set bodies \<longrightarrow>
              sent (snd (getChannels f
                    (c\<lparr>channelIds := Some (join '','' (map (\<lambda>(l, i, r). l @ i @ r) xs))\<rparr>)
                    limit cursor n))
                = sent n @ map (conversations_info_request c) (map (\<lambda>(l, i, r). i) xs)))
       \<and> (join '','' (map (\<lambda>(l, i, r). i) xs) \<noteq> [] \<longrightarrow>
          getChannels f (c\<lparr>channelIds := Some (join '','' (map (\<lambda>(l, i, r). l @ i @ r) xs))\<rparr>)
            limit cursor n
          = getChannels f (c\<lparr>channelIds := Some (join '','' (map (\<lambda>(l, i, r). i) xs))\<rparr>)
            limit cursor n)
       \<and> (\<exists>k. 0 < k \<and> k \<le> length (split_comma (join '','' (map (\<lambda>(l, i, r). i) xs)))
            \<and> sent (snd (getChannels f
                 (c\<lparr>channelIds := Some (join '','' (map (\<lambda>(l, i, r). l @ i @ r) xs))\<rparr>)
                 limit cursor n))
              = sent n @ map (conversations_info_request c)
                  (take k (map trim (split_comma (join '','' (map (\<lambda>(l, i, r). i) xs))))))"
proof -
  let ?padded = "join '','' (map (\<lambda>(l, i, r). l @ i @ r) xs)"
  let ?plain = "join '','' (map (\<lambda>(l, i, r). i) xs)"
  let ?core = "map (\<lambda>(l, i, r). i) xs"
  let ?cp = "c\<lparr>channelIds := Some ?padded\<rparr>" and ?c = "c\<lparr>channelIds := Some ?plain\<rparr>"
  from assms(2) have xs: "xs \<noteq> []" by auto
  have cp: "channelIds ?cp = Some ?padded" by simp
  have req: "conversations_info_request ?cp = conversations_info_request c"
    by (simp add: conversations_info_request_def fun_eq_iff)
  have ids: "pinned_ids ?padded = pinned_ids ?plain"
    by (rule pinned_ids_spaces_around_commas [OF assms(1)])
  from getChannels_pinned_sent [OF cp assms(2), of f limit cursor n]
  obtain k where k: "0 < k" "k \<le> length (split_comma ?padded)"
    "sent (snd (getChannels f ?cp limit cursor n))
       = sent n @ map (conversations_info_request c) (take k (map trim (split_comma ?padded)))"
    by (auto simp: req)
  have A: "map trim (split_comma ?padded) = ?core
          \<and> (\<exists>k. 0 < k \<and> k \<le> length xs
               \<and> sent (snd (getChannels f ?cp limit cursor n))
                 = sent n @ map (conversations_info_request c) (take k ?core))
          \<and> (exchange f (map (conversations_info_request c) ?core) (world n) = map Inr bodies
              \<and> JNull \<notin> set bodies \<longrightarrow>
              sent (snd (getChannels f ?cp limit cursor n))
                = sent n @ map (conversations_info_request c) ?core)"
    if el: "\<forall>(l, i, r) \<in> set xs.
            CHR '','' \<notin> set i \<and> (i = [] \<or> \<not> is_space (hd i) \<and> \<not> is_space (last i))"
  proof -
    have e: "map trim (split_comma ?padded) = ?core"
      using pinned_ids_elements [OF assms(1) el xs] by (simp add: pinned_ids_def)
    then have "length (split_comma ?padded) = length xs"
      by (metis length_map)
    with k e have "\<exists>k. 0 < k \<and> k \<le> length xs
               \<and> sent (snd (getChannels f ?cp limit cursor n))
                 = sent n @ map (conversations_info_request c) (take k ?core)"
      by (intro exI [of _ k]) simp
    moreover have "sent (snd (getChannels f ?cp limit cursor n))
                = sent n @ map (conversations_info_request c) ?core"
      if "exchange f (map (conversations_info_request c) ?core) (world n) = map Inr bodies
              \<and> JNull \<notin> set bodies"
    proof -
      from that e have x: "exchange f (map (conversations_info_request ?cp)
           (map trim (split_comma ?padded))) (world n) = map Inr bodies"
        and nn: "JNull \<notin> set bodies" by (simp_all add: req)
      from getChannels_pinned_delivered_sent [OF cp assms(2) x nn, of limit cursor] e
      show ?thesis by (simp add: req)
    qed
    ultimately show ?thesis using e by blast
  qed
  have C: "getChannels f ?cp limit cursor n = getChannels f ?c limit cursor n"
    if "?plain \<noteq> []"
    by (rule getChannels_pinned_ids [of _ ?padded _ ?plain]) (simp_all add: assms(2) that ids)
  from k ids have B: "\<exists>k. 0 < k \<and> k \<le> length (split_comma ?plain)
            \<and> sent (snd (getChannels f ?cp limit cursor n))
              = sent n @ map (conversations_info_request c)
                  (take k (map trim (split_comma ?plain)))"
  proof -
    from ids have m: "map trim (split_comma ?padded) = map trim (split_comma ?plain)"
      by (simp add: pinned_ids_def)
    then have "length (split_comma ?padded) = length (split_comma ?plain)"
      by (metis length_map)
    with k m show ?thesis by (intro exI [of _ k]) simp
  qed
  from A C B show ?thesis by blast
qed

text \<open>
  The list \<open>C1\<close>, \<open>C2\<close> written with a space, a tab and a no-break space around its
  elements: the lookups are those of \<open>C1\<close> and \<open>C2\<close>.
\<close>

theorem getChannels_pinned_ids_split_and_trimmed_witness:
  "list_all (\<lambda>(l, i, r). list_all is_space l \<and> list_all is_space r)
     [('' '', ''C1'', '' ''), ([CHR 0x09], ''C2'', [CHR 0xA0])]
   \<and> join '','' (map (\<lambda>(l, i, r). l @ i @ r)
        [('' '', ''C1'', '' ''), ([CHR 0x09], ''C2'', [CHR 0xA0])])
       = '' C1 ,'' @ [CHR 0x09] @ ''C2'' @ [CHR 0xA0]
   \<and> map trim (split_comma ('' C1 ,'' @ [CHR 0x09] @ ''C2'' @ [CHR 0xA0])) = [''C1'', ''C2'']
   \<and> map search (sent (snd (getChannels slack
        (pinned_client\<lparr>channelIds := Some ('' C1 ,'' @ [CHR 0x09] @ ''C2'' @ [CHR 0xA0])\<rparr>)
        None None start)))
       = [[(''channel'', ''C1'')], [(''channel'', ''C2'')]]
   \<and> getChannels slack
        (pinned_client\<lparr>channelIds := Some ('' C1 ,'' @ [CHR 0x09] @ ''C2'' @ [CHR 0xA0])\<rparr>)
        None None start
       = getChannels slack (pinned_client\<lparr>channelIds := Some ''C1,C2''\<rparr>) None None start"
proof -
  let ?xs = "[('' '', ''C1'', '' ''), ([CHR 0x09], ''C2'', [CHR 0xA0])]
               :: (string \<times> string \<times> string) list"
  let ?b1 = "JObj [(''ok'', JBool True),
                  (''channel'', JObj [(''id'', JStr ''C1''), (''is_archived'', JBool False)])]"
  let ?b2 = "JObj [(''ok'', JBool True),
                  (''channel'', JObj [(''id'', JStr ''C2''), (''is_archived'', JBool True)])]"
  have h0: "list_all (\<lambda>(l, i, r). list_all is_space l \<and> list_all is_space r) ?xs"
    by (simp add: is_space_def)
  have h1: "\<forall>(l, i, r) \<in> set ?xs. list_all is_space l \<and> list_all is_space r"
    by (simp add: is_space_def)
  have h2: "join '','' (map (\<lambda>(l, i, r). l @ i @ r) ?xs) \<noteq> []" by simp
  have h3: "\<forall>(l, i, r) \<in> set ?xs.
            CHR '','' \<notin> set i \<and> (i = [] \<or> \<not> is_space (hd i) \<and> \<not> is_space (last i))"
    by (simp add: is_space_def)
  have h4: "join '','' (map (\<lambda>(l, i, r). i) ?xs) \<noteq> []" by simp
  have h5: "exchange slack (map (conversations_info_request pinned_client)
               (map (\<lambda>(l, i, r). i) ?xs)) (world start) = map Inr [?b1, ?b2]
            \<and> JNull \<notin> set [?b1, ?b2]"
    by (simp add: slack_def conversations_info_request_def start_def)
  note inst = getChannels_pinned_ids_split_and_trimmed
    [OF h1 h2, where f = slack and c = pinned_client and limit = None and cursor = None
       and n = start and bodies = "[?b1, ?b2]"]
  note a = inst [THEN conjunct1, THEN mp, OF h3]
  from a have ids: "map trim (split_comma (join '','' (map (\<lambda>(l, i, r). l @ i @ r) ?xs)))
      = map (\<lambda>(l, i, r). i) ?xs" by (rule conjunct1)
  from a have "exchange slack (map (conversations_info_request pinned_client)
               (map (\<lambda>(l, i, r). i) ?xs)) (world start) = map Inr [?b1, ?b2]
            \<and> JNull \<notin> set [?b1, ?b2] \<longrightarrow>
     sent (snd (getChannels slack
        (pinned_client\<lparr>channelIds := Some (join '','' (map (\<lambda>(l, i, r). l @ i @ r) ?xs))\<rparr>)
        None None start))
       = sent start @ map (conversations_info_request pinned_client) (map (\<lambda>(l, i, r). i) ?xs)"
    by (rule conjunct2 [THEN conjunct2])
  with h5 have snt: "sent (snd (getChannels slack
        (pinned_client\<lparr>channelIds := Some (join '','' (map (\<lambda>(l, i, r). l @ i @ r) ?xs))\<rparr>)
        None None start))
       = sent start @ map (conversations_info_request pinned_client) (map (\<lambda>(l, i, r). i) ?xs)"
    by (rule mp [rotated])
  note same = inst [THEN conjunct2, THEN conjunct1, THEN mp, OF h4]
  have j: "join '','' (map (\<lambda>(l, i, r). l @ i @ r) ?xs)
      = '' C1 ,'' @ [CHR 0x09] @ ''C2'' @ [CHR 0xA0]" by simp
  have j2: "join '','' (map (\<lambda>(l, i, r). i) ?xs) = ''C1,C2''" by simp
  from ids have c3: "map trim (split_comma ('' C1 ,'' @ [CHR 0x09] @ ''C2'' @ [CHR 0xA0]))
      = [''C1'', ''C2'']"
    by (simp only: j) simp
  from snt have c4: "map search (sent (snd (getChannels slack
        (pinned_client\<lparr>channelIds := Some ('' C1 ,'' @ [CHR 0x09] @ ''C2'' @ [CHR 0xA0])\<rparr>)
        None None start)))
       = [[(''channel'', ''C1'')], [(''channel'', ''C2'')]]"
    by (simp only: j) (simp add: start_def conversations_info_request_def)
  from same have c5: "getChannels slack
        (pinned_client\<lparr>channelIds := Some ('' C1 ,'' @ [CHR 0x09] @ ''C2'' @ [CHR 0xA0])\<rparr>)
        None None start
       = getChannels slack (pinned_client\<lparr>channelIds := Some ''C1,C2''\<rparr>) None None start"
    by (simp only: j j2)
  from h0 j c3 c4 c5 show ?thesis by (intro conjI)
qed

subsection \<open>C10: the limit of the channel history\<close>

text \<open>
  Claim C10. \<open>getChannelHistory\<close> sends one request whose \<open>limit\<close> parameter is the
  given limit (10 when absent) printed as it is, without a bound: different limits give
  different parameters. \<open>getUsers\<close> and the listing request of \<open>getChannels\<close> send the
  minimum of the limit and 200. A limit of 1000 is sent as 1000 by \<open>getChannelHistory\<close>
  and as 200 by \<open>getUsers\<close>.
\<close>

theorem getChannelHistory_forwards_limit_unclamped:
  "sent (snd (getChannelHistory f c channel_id limit n))
     = sent n @ [getChannelHistory_request c channel_id limit]
   \<and> search (getChannelHistory_request c channel_id limit)
     = [(''channel'', channel_id),
        (''limit'', number_toString (case limit of None \<Rightarrow> 10 | Some l \<Rightarrow> l))]
   \<and> (map_of (search (getChannelHistory_request c channel_id (Some x))) ''limit''
        = map_of (search (getChannelHistory_request c channel_id (Some y))) ''limit''
      \<longrightarrow> x = y)
   \<and> map_of (search (getUsers_request c limit cursor)) ''limit''
     = Some (number_toString (min (case limit of None \<Rightarrow> 100 | Some l \<Rightarrow> l) 200))
   \<and> map_of (search (conversations_list_request c limit cursor)) ''limit''
     = Some (number_toString (min (case limit of None \<Rightarrow> 100 | Some l \<Rightarrow> l) 200))
   \<and> map_of (search (getChannelHistory_request c channel_id (Some 1000))) ''limit''
     = Some ''1000''
   \<and> map_of (search (getUsers_request c (Some 1000) cursor)) ''limit'' = Some ''200''"
proof -
  have a: "sent (snd (getChannelHistory f c channel_id limit n))
     = sent n @ [getChannelHistory_request c channel_id limit]"
    by (simp add: getChannelHistory_def fetch_json_sent)
  have b: "search (getChannelHistory_request c channel_id limit)
     = [(''channel'', channel_id),
        (''limit'', number_toString (case limit of None \<Rightarrow> 10 | Some l \<Rightarrow> l))]"
    by (cases limit) (simp_all add: getChannelHistory_request_def)
  have d: "map_of (search (getChannelHistory_request c channel_id (Some x))) ''limit''
        = map_of (search (getChannelHistory_request c channel_id (Some y))) ''limit''
      \<longrightarrow> x = y"
    by (auto simp: getChannelHistory_request_def dest: number_toString_inj)
  have e: "map_of (search (getUsers_request c limit cursor)) ''limit''
     = Some (number_toString (min (case limit of None \<Rightarrow> 100 | Some l \<Rightarrow> l) 200))"
    by (cases limit) (simp_all add: getUsers_request_def)
  have g: "map_of (search (conversations_list_request c limit cursor)) ''limit''
     = Some (number_toString (min (case limit of None \<Rightarrow> 100 | Some l \<Rightarrow> l) 200))"
    by (cases limit) (simp_all add: conversations_list_request_def)
  have h: "map_of (search (getChannelHistory_request c channel_id (Some 1000))) ''limit''
     = Some ''1000''"
    by (simp add: getChannelHistory_request_def number_toString_def digits.simps)
  have i: "map_of (search (getUsers_request c (Some 1000) cursor)) ''limit'' = Some ''200''"
    by (simp add: getUsers_request_def number_toString_def digits.simps)
  from a b d e g h i show ?thesis by (intro conjI)
qed

theorem getChannelHistory_forwards_limit_unclamped_witness:
  "map_of (search (getChannelHistory_request open_client ''C1'' (Some 5))) ''limit''
     = map_of (search (getChannelHistory_request open_client ''C1'' (Some 5))) ''limit''
   \<and> search (getChannelHistory_request open_client ''C1'' (Some 5))
     = [(''channel'', ''C1''), (''limit'', ''5'')]
   \<and> search (getChannelHistory_request open_client ''C1'' None)
     = [(''channel'', ''C1''), (''limit'', ''10'')]"
  using getChannelHistory_forwards_limit_unclamped [of slack open_client "''C1''" "Some 5" start 5 5 None]
        getChannelHistory_forwards_limit_unclamped [of slack open_client "''C1''" None start 5 5 None]
  by (simp add: number_toString_def digits.simps)

end
